theory Spec2Isabelle
  imports Main "HOL-Library.Sublist"
begin

section \<open>Python values used by \<open>app.py\<close>\<close>

text \<open>
  A Python \<open>str\<close> is modelled as a \<^typ>\<open>string\<close> holding its UTF-8 bytes, so every
  ASCII character is one \<^typ>\<open>char\<close>. The patterns and delimiters of the program are
  all ASCII, hence matching them on the bytes agrees with matching them on the code
  points.

  A raised exception is a value: its class name and the text \<open>str(e)\<close>. \<open>Exn\<close> is an
  instance of a class that derives from \<open>Exception\<close>; \<open>BaseExn\<close> is an instance of a class
  that derives from \<open>BaseException\<close> only, such as \<open>KeyboardInterrupt\<close> and \<open>SystemExit\<close>.
  The clause \<open>except Exception\<close> catches the first kind and lets the second through.
  A computation that may raise returns \<open>exn + 'a\<close>, with \<open>Inl\<close> for the raise.
\<close>

datatype exn =
    is_Exception: Exn (exn_class: string) (exn_str: string)
  | BaseExn (exn_class: string) (exn_str: string)

definition is_ascii :: "char \<Rightarrow> bool" where
  "is_ascii c = (\<not> digit7 c)"

definition ascii_lowercase :: string where
  "ascii_lowercase = ''abcdefghijklmnopqrstuvwxyz''"

definition ascii_uppercase :: string where
  "ascii_uppercase = ''ABCDEFGHIJKLMNOPQRSTUVWXYZ''"

definition is_ascii_alpha :: "char \<Rightarrow> bool" where
  \<comment> \<open>\<open>c.isascii() and c.isalpha()\<close>\<close>
  "is_ascii_alpha c = (c \<in> set (ascii_lowercase @ ascii_uppercase))"

definition lower_char :: "char \<Rightarrow> char" where
  "lower_char c =
     (case map_of (zip ascii_uppercase ascii_lowercase) c of Some l \<Rightarrow> l | None \<Rightarrow> c)"

definition py_lower :: "string \<Rightarrow> string" where
  \<comment> \<open>\<open>str.lower()\<close> on the ASCII letters; other bytes are kept\<close>
  "py_lower s = map lower_char s"

definition py_partition :: "char \<Rightarrow> string \<Rightarrow> string \<times> string \<times> string" where
  \<comment> \<open>\<open>s.partition(c)\<close>: split at the first \<open>c\<close>; \<open>(s, '', '')\<close> when there is none\<close>
  "py_partition c s =
     (if c \<in> set s
      then (takeWhile (\<lambda>x. x \<noteq> c) s, [c], tl (dropWhile (\<lambda>x. x \<noteq> c) s))
      else (s, [], []))"

definition py_rpartition :: "char \<Rightarrow> string \<Rightarrow> string \<times> string \<times> string" where
  \<comment> \<open>\<open>s.rpartition(c)\<close>: split at the last \<open>c\<close>; \<open>('', '', s)\<close> when there is none\<close>
  "py_rpartition c s =
     (if c \<in> set s
      then (rev (tl (dropWhile (\<lambda>x. x \<noteq> c) (rev s))), [c],
            rev (takeWhile (\<lambda>x. x \<noteq> c) (rev s)))
      else ([], [], s))"

fun py_split :: "char \<Rightarrow> string \<Rightarrow> string list" where
  \<comment> \<open>\<open>s.split(c)\<close> for a one-character separator\<close>
  "py_split c [] = [[]]"
| "py_split c (x # xs) =
     (if x = c then [] # py_split c xs
      else (case py_split c xs of
              [] \<Rightarrow> [[x]]
            | h # t \<Rightarrow> (x # h) # t))"

definition py_index :: "'a list \<Rightarrow> nat \<Rightarrow> exn + 'a" where
  \<comment> \<open>\<open>xs[i]\<close> for \<open>i \<ge> 0\<close>: raises \<open>IndexError\<close> out of range\<close>
  "py_index xs i =
     (if i < length xs then Inr (xs ! i)
      else Inl (Exn ''IndexError'' ''list index out of range''))"

fun py_in :: "string \<Rightarrow> string \<Rightarrow> bool" where
  \<comment> \<open>\<open>needle in hay\<close>: substring test\<close>
  "py_in needle [] = (needle = [])"
| "py_in needle (h # hs) = (prefix needle (h # hs) \<or> py_in needle hs)"


section \<open>The fragment of \<open>re\<close> that the patterns use\<close>

text \<open>
  \<open>re.match(pattern, s)\<close> tries the pattern at the start of \<open>s\<close> by backtracking.
  \<open>rmatch\<close> lists every way a pattern can match, in the order in which the
  backtracking search of \<open>re\<close> tries them: a greedy operator offers its longest
  alternative first, a lazy one its shortest. A state is the input still to be read
  and the text captured by the group \<open>id\<close> so far. The first entry is the match that
  \<open>re.match\<close> returns.
\<close>

datatype cclass =
    Dot                \<comment> \<open>\<open>.\<close>: any character but a newline\<close>
  | NoneOf string      \<comment> \<open>\<open>[^...]\<close>\<close>
  | OneOf string       \<comment> \<open>\<open>[...]\<close>\<close>

datatype regex =
    Lit string         \<comment> \<open>literal characters\<close>
  | Cat regex regex    \<comment> \<open>concatenation\<close>
  | Opt regex          \<comment> \<open>\<open>r?\<close>, greedy\<close>
  | Plus cclass        \<comment> \<open>\<open>c+\<close>, greedy\<close>
  | LazyStar cclass    \<comment> \<open>\<open>c*?\<close>, lazy\<close>
  | GroupId regex      \<comment> \<open>\<open>(?P<id>r)\<close>\<close>
  | Eos                \<comment> \<open>\<open>\Z\<close>: end of the string\<close>

type_synonym mstate = "string \<times> string option"

fun in_class :: "cclass \<Rightarrow> char \<Rightarrow> bool" where
  "in_class Dot c = (c \<noteq> CHR 0x0A)"
| "in_class (NoneOf cs) c = (c \<notin> set cs)"
| "in_class (OneOf cs) c = (c \<in> set cs)"

fun rmatch :: "regex \<Rightarrow> mstate \<Rightarrow> mstate list" where
  "rmatch (Lit l) (s, cap) = (if prefix l s then [(drop (length l) s, cap)] else [])"
| "rmatch (Cat r1 r2) st = concat (map (rmatch r2) (rmatch r1 st))"
| "rmatch (Opt r) st = rmatch r st @ [st]"
| "rmatch (Plus cc) (s, cap) =
     map (\<lambda>k. (drop k s, cap)) (rev [1 ..< Suc (length (takeWhile (in_class cc) s))])"
| "rmatch (LazyStar cc) (s, cap) =
     map (\<lambda>k. (drop k s, cap)) [0 ..< Suc (length (takeWhile (in_class cc) s))]"
| "rmatch (GroupId r) (s, cap) =
     map (\<lambda>(s', cap'). (s', Some (take (length s - length s') s))) (rmatch r (s, cap))"
| "rmatch Eos (s, cap) = (if s = [] then [(s, cap)] else [])"

definition re_match :: "regex \<Rightarrow> string \<Rightarrow> string option option" where
  \<comment> \<open>\<open>None\<close>: no match; \<open>Some g\<close>: a match object whose \<open>group('id')\<close> is \<open>g\<close>\<close>
  "re_match r s = (case rmatch r (s, None) of [] \<Rightarrow> None | (_, cap) # _ \<Rightarrow> Some cap)"

fun seq :: "regex list \<Rightarrow> regex" where
  "seq [] = Lit []"
| "seq [r] = r"
| "seq (r # rs) = Cat r (seq rs)"


section \<open>\<open>extract_video_id\<close>: the regular expressions\<close>

definition url_prefix :: "regex list" where
  \<comment> \<open>\<open>(?:https?://)?(?:www\.)?\<close>\<close>
  "url_prefix =
     [Opt (seq [Lit ''http'', Opt (Lit ''s''), Lit ''://'']), Opt (Lit ''www.'')]"

definition id_group :: regex where
  \<comment> \<open>\<open>(?P<id>[^?&/]+)\<close>\<close>
  "id_group = GroupId (Plus (NoneOf ''?&/''))"

definition regex_patterns :: "regex list" where
  "regex_patterns =
     [ seq (url_prefix @ [Lit ''youtu.be/'', id_group]),
       seq (url_prefix @ [Lit ''youtube.com/embed/'', id_group]),
       seq (url_prefix @ [Lit ''youtube.com/v/'', id_group]),
       seq (url_prefix @ [Lit ''youtube.com/watch?v='', id_group]),
       seq (url_prefix @ [Lit ''youtube.com/watch?'', LazyStar Dot, Lit ''&v='', id_group]) ]"

fun try_patterns :: "regex list \<Rightarrow> string \<Rightarrow> string option option" where
  \<comment> \<open>the \<open>for\<close> loop: return at the first pattern that matches\<close>
  "try_patterns [] url = None"
| "try_patterns (pattern # rest) url =
     (case re_match pattern url of
        Some g \<Rightarrow> Some g
      | None \<Rightarrow> try_patterns rest url)"


section \<open>The fragment of \<open>urllib.parse\<close> that the fallback uses\<close>

text \<open>
  The definitions follow \<open>urllib/parse.py\<close> of CPython 3.11. Three library functions that
  it calls are not modelled and are taken as parameters: \<open>ipaddress.ip_address\<close>
  (reduced to the class of the address it returns, or its \<open>ValueError\<close>),
  \<open>unicodedata.normalize('NFKC', _)\<close> and \<open>bytes.decode('utf-8', 'replace')\<close>.
  None of them is reached on a URL without brackets, without a percent sign and with
  an ASCII network location.
\<close>

datatype ip_version = IPv4 | IPv6

record pylib =
  ip_address :: "string \<Rightarrow> exn + ip_version"
  nfkc_normalize :: "string \<Rightarrow> string"
  decode_utf8_replace :: "string \<Rightarrow> string"

definition scheme_chars :: string where
  "scheme_chars = ascii_lowercase @ ascii_uppercase @ ''0123456789'' @ ''+-.''"

definition uses_params :: "string list" where
  "uses_params = [[], ''ftp'', ''hdl'', ''prospero'', ''http'', ''imap'',
                  ''https'', ''shttp'', ''rtsp'', ''rtsps'', ''rtspu'', ''sip'',
                  ''sips'', ''mms'', ''sftp'', ''tel'']"

definition is_c0_control_or_space :: "char \<Rightarrow> bool" where
  \<comment> \<open>membership in \<open>_WHATWG_C0_CONTROL_OR_SPACE\<close>: the characters \<open>0x00\<close> to \<open>0x20\<close>\<close>
  "is_c0_control_or_space c = ((of_char c :: nat) \<le> 32)"

definition unsafe_url_bytes_to_remove :: string where
  \<comment> \<open>tab, carriage return, newline\<close>
  "unsafe_url_bytes_to_remove = [CHR 0x09, CHR 0x0D, CHR 0x0A]"

definition value_error :: "string \<Rightarrow> exn" where
  "value_error msg = Exn ''ValueError'' msg"

definition ipvfuture_re :: regex where
  \<comment> \<open>\<open>\Av[a-fA-F0-9]+\..+\Z\<close>\<close>
  "ipvfuture_re =
     seq [Lit ''v'', Plus (OneOf ''abcdefABCDEF0123456789''), Lit ''.'', Plus Dot, Eos]"

definition check_bracketed_host :: "pylib \<Rightarrow> string \<Rightarrow> exn + unit" where
  "check_bracketed_host lib hostname =
     (if prefix ''v'' hostname then
        (if re_match ipvfuture_re hostname = None
         then Inl (value_error ''IPvFuture address is invalid'')
         else Inr ())
      else
        (case ip_address lib hostname of
           Inl e \<Rightarrow> Inl e
         | Inr IPv4 \<Rightarrow> Inl (value_error ''An IPv4 address cannot be in brackets'')
         | Inr IPv6 \<Rightarrow> Inr ()))"

definition checknetloc :: "pylib \<Rightarrow> string \<Rightarrow> exn + unit" where
  "checknetloc lib netloc =
     (if netloc = [] \<or> list_all is_ascii netloc then Inr ()
      else
        (let n = filter (\<lambda>c. c \<notin> set ''@:#?'') netloc;
             netloc2 = nfkc_normalize lib n
         in if n = netloc2 then Inr ()
            else if list_ex (\<lambda>c. c \<in> set netloc2) ''/?#@:''
            then Inl (value_error (''netloc '' @ [CHR 0x27] @ netloc @ [CHR 0x27] @
                        '' contains invalid characters under NFKC normalization''))
            else Inr ()))"

definition split_scheme :: "string \<Rightarrow> string \<times> string" where
  \<comment> \<open>the scheme, when the text before the first colon is one, and the rest of the URL\<close>
  "split_scheme url =
     (let head = takeWhile (\<lambda>c. c \<noteq> CHR '':'') url
      in if CHR '':'' \<in> set url \<and> head \<noteq> [] \<and> is_ascii_alpha (hd url)
            \<and> list_all (\<lambda>c. c \<in> set scheme_chars) head
         then (py_lower head, drop (Suc (length head)) url)
         else ([], url))"

definition splitnetloc :: "string \<Rightarrow> string \<times> string" where
  \<comment> \<open>\<open>_splitnetloc(url, 2)\<close>: the text after \<open>//\<close> up to the first of \<open>/?#\<close>, and the rest\<close>
  "splitnetloc url =
     (takeWhile (\<lambda>c. c \<notin> set ''/?#'') (drop 2 url),
      dropWhile (\<lambda>c. c \<notin> set ''/?#'') (drop 2 url))"

definition check_brackets :: "pylib \<Rightarrow> string \<Rightarrow> exn + unit" where
  "check_brackets lib netloc =
     (if (CHR ''['' \<in> set netloc \<and> CHR '']'' \<notin> set netloc) \<or>
         (CHR '']'' \<in> set netloc \<and> CHR ''['' \<notin> set netloc)
      then Inl (value_error ''Invalid IPv6 URL'')
      else if CHR ''['' \<in> set netloc \<and> CHR '']'' \<in> set netloc
      then check_bracketed_host lib
             (fst (py_partition CHR '']'' (snd (snd (py_partition CHR ''['' netloc)))))
      else Inr ())"

definition hostinfo :: "string \<Rightarrow> string" where
  \<comment> \<open>the first component of \<open>_hostinfo\<close>\<close>
  "hostinfo netloc =
     (let info = snd (snd (py_rpartition CHR ''@'' netloc));
          (_, have_open_br, bracketed) = py_partition CHR ''['' info
      in if have_open_br \<noteq> [] then fst (py_partition CHR '']'' bracketed)
         else fst (py_partition CHR '':'' info))"

record split_result =
  scheme :: string
  netloc :: string
  path :: string
  query :: string
  fragment :: string

definition urlsplit :: "pylib \<Rightarrow> string \<Rightarrow> exn + split_result" where
  "urlsplit lib url0 =
     (let url1 = dropWhile is_c0_control_or_space url0;
          url2 = filter (\<lambda>c. c \<notin> set unsafe_url_bytes_to_remove) url1;
          (sch, url3) = split_scheme url2;
          (loc, url4) = (if take 2 url3 = ''//'' then splitnetloc url3 else ([], url3))
      in case (if take 2 url3 = ''//'' then check_brackets lib loc else Inr ()) of
           Inl e \<Rightarrow> Inl e
         | Inr _ \<Rightarrow>
             (let (url5, frag) =
                    (if CHR ''#'' \<in> set url4
                     then (fst (py_partition CHR ''#'' url4), snd (snd (py_partition CHR ''#'' url4)))
                     else (url4, []));
                  (url6, qry) =
                    (if CHR ''?'' \<in> set url5
                     then (fst (py_partition CHR ''?'' url5), snd (snd (py_partition CHR ''?'' url5)))
                     else (url5, []))
              in case checknetloc lib loc of
                   Inl e \<Rightarrow> Inl e
                 | Inr _ \<Rightarrow>
                     Inr \<lparr>scheme = sch, netloc = loc, path = url6, query = qry,
                          fragment = frag\<rparr>))"

definition splitparams :: "string \<Rightarrow> string \<times> string" where
  "splitparams url =
     (if CHR ''/'' \<in> set url then
        (let k = length (fst (py_rpartition CHR ''/'' url));
             after = drop k url
         in if CHR '';'' \<notin> set after then (url, [])
            else (let i = k + length (takeWhile (\<lambda>c. c \<noteq> CHR '';'') after)
                  in (take i url, drop (Suc i) url)))
      else
        (let i = length (takeWhile (\<lambda>c. c \<noteq> CHR '';'') url)
         in (take i url, drop (Suc i) url)))"

record parse_result = split_result +
  params :: string

definition urlparse :: "pylib \<Rightarrow> string \<Rightarrow> exn + parse_result" where
  "urlparse lib url =
     (case urlsplit lib url of
        Inl e \<Rightarrow> Inl e
      | Inr r \<Rightarrow>
          (let (url', prm) =
                 (if scheme r \<in> set uses_params \<and> CHR '';'' \<in> set (path r)
                  then splitparams (path r) else (path r, []))
           in Inr \<lparr>scheme = scheme r, netloc = netloc r, path = url', query = query r,
                   fragment = fragment r, params = prm\<rparr>))"

definition hostname :: "parse_result \<Rightarrow> string option" where
  "hostname r =
     (let host = hostinfo (netloc r)
      in if host = [] then None
         else (let (host', percent, zone) = py_partition CHR ''%'' host
               in Some (py_lower host' @ percent @ zone)))"

fun hex_value :: "char \<Rightarrow> nat" where
  "hex_value c =
     (let n = of_char c
      in if n \<le> 57 then n - 48 else if n \<le> 70 then n - 55 else n - 87)"

fun unquote_item :: "string \<Rightarrow> string" where
  \<comment> \<open>one piece after a percent sign: two hex digits give a byte, otherwise the percent
      sign is kept\<close>
  "unquote_item (a # b # rest) =
     (if a \<in> set ''0123456789ABCDEFabcdef'' \<and> b \<in> set ''0123456789ABCDEFabcdef''
      then char_of (16 * hex_value a + hex_value b) # rest
      else CHR ''%'' # a # b # rest)"
| "unquote_item item = CHR ''%'' # item"

definition unquote_to_bytes :: "string \<Rightarrow> string" where
  "unquote_to_bytes s =
     (case py_split CHR ''%'' s of
        [] \<Rightarrow> []
      | first # items \<Rightarrow> first @ concat (map unquote_item items))"

function ascii_runs :: "string \<Rightarrow> string list" where
  \<comment> \<open>the pieces of \<open>_asciire.split\<close>: maximal runs of ASCII and of non-ASCII characters\<close>
  "ascii_runs [] = []"
| "ascii_runs (c # cs) =
     (c # takeWhile (\<lambda>x. is_ascii x = is_ascii c) cs)
       # ascii_runs (dropWhile (\<lambda>x. is_ascii x = is_ascii c) cs)"
  by pat_completeness auto
termination
  by (relation "measure length") (auto simp: le_imp_less_Suc length_dropWhile_le)

definition unquote :: "pylib \<Rightarrow> string \<Rightarrow> string" where
  "unquote lib s =
     (if CHR ''%'' \<notin> set s then s
      else concat (map (\<lambda>run. if list_all is_ascii run
                                then decode_utf8_replace lib (unquote_to_bytes run)
                                else run)
                       (ascii_runs s)))"

definition unquote_plus :: "pylib \<Rightarrow> string \<Rightarrow> string" where
  "unquote_plus lib s = unquote lib (map (\<lambda>c. if c = CHR ''+'' then CHR '' '' else c) s)"

definition parse_qsl :: "pylib \<Rightarrow> string \<Rightarrow> (string \<times> string) list" where
  "parse_qsl lib qs =
     (if qs = [] then []
      else concat (map (\<lambda>name_value.
             if name_value \<noteq> [] then
               (let (name, has_eq, val) = py_partition CHR ''='' name_value
                in if val \<noteq> [] then [(unquote_plus lib name, unquote_plus lib val)] else [])
             else [])
           (py_split CHR ''&'' qs)))"

fun collect_pairs ::
  "(string \<times> string) list \<Rightarrow> (string \<rightharpoonup> string list) \<Rightarrow> (string \<rightharpoonup> string list)" where
  "collect_pairs [] parsed_result = parsed_result"
| "collect_pairs ((name, val) # pairs) parsed_result =
     collect_pairs pairs
       (case parsed_result name of
          Some vs \<Rightarrow> parsed_result(name \<mapsto> vs @ [val])
        | None \<Rightarrow> parsed_result(name \<mapsto> [val]))"

definition parse_qs :: "pylib \<Rightarrow> string \<Rightarrow> (string \<rightharpoonup> string list)" where
  "parse_qs lib qs = collect_pairs (parse_qsl lib qs) Map.empty"


section \<open>\<open>extract_video_id\<close>\<close>

definition extract_video_id :: "pylib \<Rightarrow> string \<Rightarrow> exn + string option" where
  "extract_video_id lib url =
     (case try_patterns regex_patterns url of
        Some g \<Rightarrow> Inr g
      | None \<Rightarrow>
          (case urlparse lib url of
             Inl e \<Rightarrow> Inl e
           | Inr parsed_url \<Rightarrow>
               if hostname parsed_url \<in> set [Some ''www.youtube.com'', Some ''youtube.com''] then
                 if path parsed_url = ''/watch'' then
                   (let query_params = parse_qs lib (query parsed_url)
                    in py_index (case query_params ''v'' of
                                   Some vs \<Rightarrow> map Some vs
                                 | None \<Rightarrow> [None]) 0)
                 else if prefix ''/embed/'' (path parsed_url) then
                   map_sum id Some (py_index (py_split CHR ''/'' (path parsed_url)) 2)
                 else if prefix ''/v/'' (path parsed_url) then
                   map_sum id Some (py_index (py_split CHR ''/'' (path parsed_url)) 2)
                 else Inr None
               else Inr None))"


section \<open>Files, the page and the external services\<close>

text \<open>
  The file system is the set of the paths that exist. The page is the list of the
  Streamlit elements emitted so far. The download engine, the recognition engine and
  \<open>os.makedirs\<close> are black boxes: each is a function that returns or raises, and the
  ones that write return the new file system too. The world also keeps the list of the
  calls made to them, so that a theorem can say that a call did not happen.
\<close>

type_synonym filesystem = "string set"

definition os_path_exists :: "filesystem \<Rightarrow> string \<Rightarrow> bool" where
  "os_path_exists files p = (p \<in> files)"

definition os_path_join :: "string \<Rightarrow> string \<Rightarrow> string" where
  \<comment> \<open>\<open>posixpath.join(a, b)\<close>: a second part that starts with a slash replaces the first\<close>
  "os_path_join a b =
     (if prefix ''/'' b then b
      else if a = [] \<or> suffix ''/'' a then a @ b
      else a @ ''/'' @ b)"

record postprocessor =
  key :: string
  preferredcodec :: string
  preferredquality :: string

record ydl_opts =
  format :: string
  outtmpl :: string
  postprocessors :: "postprocessor list"
  quiet :: bool
  no_warnings :: bool

datatype ui_event =
    St_title string
  | St_write string
  | St_text_input string string
  | St_selectbox string "string list"
  | St_button string
  | St_success string
  | St_video string
  | St_spinner string
  | St_subheader string
  | St_download_button (label: string) (data: string) (file_name: string) (mime: string)
  | St_error string
  | St_warning string

datatype call =
    Makedirs string
  | Download ydl_opts "string list"
  | Exists string bool
  | Load_model string
  | Transcribe string string

record 'm services =
  os_makedirs :: "string \<Rightarrow> filesystem \<Rightarrow> (exn + unit) \<times> filesystem"
  ydl_download :: "ydl_opts \<Rightarrow> string list \<Rightarrow> filesystem \<Rightarrow> (exn + unit) \<times> filesystem"
  whisper_load_model :: "string \<Rightarrow> exn + 'm"
  model_transcribe :: "'m \<Rightarrow> string \<Rightarrow> string \<Rightarrow> filesystem \<Rightarrow> exn + (string \<rightharpoonup> string)"

record world =
  fs :: filesystem
  ui :: "ui_event list"
  calls :: "call list"

definition transcriber_call :: "call \<Rightarrow> bool" where
  \<comment> \<open>the calls that \<open>transcribe_audio\<close> makes\<close>
  "transcriber_call c =
     (case c of Load_model _ \<Rightarrow> True | Transcribe _ _ \<Rightarrow> True | _ \<Rightarrow> False)"

definition st :: "ui_event list \<Rightarrow> world \<Rightarrow> world" where
  "st events w = w\<lparr>ui := ui w @ events\<rparr>"

definition called :: "call \<Rightarrow> world \<Rightarrow> world" where
  "called c w = w\<lparr>calls := calls w @ [c]\<rparr>"


section \<open>\<open>download_audio\<close>\<close>

definition make_ydl_opts :: "string \<Rightarrow> string \<Rightarrow> ydl_opts" where
  "make_ydl_opts output_dir filename =
     \<lparr>format = ''bestaudio/best'',
      outtmpl = os_path_join output_dir filename,
      postprocessors = [\<lparr>key = ''FFmpegExtractAudio'', preferredcodec = ''mp3'',
                         preferredquality = ''192''\<rparr>],
      quiet = True,
      no_warnings = True\<rparr>"

definition download_audio ::
  "'m services \<Rightarrow> string \<Rightarrow> string \<Rightarrow> string \<Rightarrow> world \<Rightarrow> (exn + unit) \<times> world" where
  "download_audio svc video_url output_dir filename w =
     (let w1 = called (Makedirs output_dir) w
      in case os_makedirs svc output_dir (fs w1) of
           (Inl e, fs1) \<Rightarrow> (Inl e, w1\<lparr>fs := fs1\<rparr>)
         | (Inr _, fs1) \<Rightarrow>
             (let opts = make_ydl_opts output_dir filename;
                  w2 = called (Download opts [video_url]) (w1\<lparr>fs := fs1\<rparr>)
              in case ydl_download svc opts [video_url] (fs w2) of
                   (r, fs2) \<Rightarrow> (r, w2\<lparr>fs := fs2\<rparr>)))"


section \<open>\<open>transcribe_audio\<close>\<close>

definition transcription_error_marker :: string where
  \<comment> \<open>\<open>Error durante la transcripci\'on\<close>, the accented letter as its two UTF-8 bytes\<close>
  "transcription_error_marker = ''Error durante la transcripci'' @ [CHR 0xC3, CHR 0xB3] @ ''n''"

definition key_error :: "string \<Rightarrow> exn" where
  \<comment> \<open>\<open>str(KeyError(k))\<close> is \<open>repr(k)\<close>\<close>
  "key_error k = Exn ''KeyError'' ([CHR 0x27] @ k @ [CHR 0x27])"

definition transcribe_try ::
  "'m services \<Rightarrow> string \<Rightarrow> string \<Rightarrow> string \<Rightarrow> world \<Rightarrow> (exn + string) \<times> world" where
  \<comment> \<open>the body of the \<open>try\<close>\<close>
  "transcribe_try svc audio_path model lang w =
     (let w1 = called (Load_model model) w
      in case whisper_load_model svc model of
           Inl e \<Rightarrow> (Inl e, w1)
         | Inr m \<Rightarrow>
             (let w2 = called (Transcribe audio_path lang) w1
              in case model_transcribe svc m audio_path lang (fs w2) of
                   Inl e \<Rightarrow> (Inl e, w2)
                 | Inr result \<Rightarrow>
                     (case result ''text'' of
                        None \<Rightarrow> (Inl (key_error ''text''), w2)
                      | Some text \<Rightarrow> (Inr text, w2))))"

definition transcribe_audio ::
  "'m services \<Rightarrow> string \<Rightarrow> string \<Rightarrow> string \<Rightarrow> world \<Rightarrow> (exn + string) \<times> world" where
  "transcribe_audio svc audio_path model lang w =
     (case transcribe_try svc audio_path model lang w of
        (Inr text, w') \<Rightarrow> (Inr text, w')
      | (Inl e, w') \<Rightarrow>
          if is_Exception e
          then (Inr (transcription_error_marker @ '': '' @ exn_str e), w')
          else (Inl e, w'))"


section \<open>\<open>main\<close>\<close>

record inputs =
  youtube_url :: string    \<comment> \<open>the text typed into \<open>st.text_input\<close>\<close>
  language :: string       \<comment> \<open>the choice of the first \<open>st.selectbox\<close>\<close>
  model_name :: string     \<comment> \<open>the choice of the second \<open>st.selectbox\<close>\<close>
  clicked :: bool          \<comment> \<open>what \<open>st.button\<close> returns\<close>

definition languages :: "string list" where
  "languages = [''es'', ''en'', ''fr'', ''de'', ''it'', ''pt'', ''ru'', ''ja'', ''ko'', ''zh'']"

definition models :: "string list" where
  "models = [''tiny'', ''base'', ''small'', ''medium'', ''large'']"

definition page_head :: "ui_event list" where
  \<comment> \<open>the elements drawn on every run; the title ends with two emoji\<close>
  "page_head =
     [St_title (''Transcriptor de Videos de YouTube '' @
                [CHR 0xF0, CHR 0x9F, CHR 0x8E, CHR 0xA5, CHR 0xF0, CHR 0x9F, CHR 0x93, CHR 0x9D]),
      St_write (''Ingresa el enlace de un video de YouTube y obt'' @ [CHR 0xC3, CHR 0xA9] @
                ''n la transcripci'' @ [CHR 0xC3, CHR 0xB3] @ ''n del audio.''),
      St_text_input ''URL de YouTube:'' [],
      St_selectbox ''Selecciona el idioma del audio:'' languages,
      St_selectbox (''Selecciona el modelo de transcripci'' @ [CHR 0xC3, CHR 0xB3] @ ''n:'') models,
      St_button ''Transcribir'']"

definition msg_no_id :: string where
  "msg_no_id = ''No se pudo extraer el ID del video. Por favor, verifica la URL ingresada.''"

definition msg_no_audio :: string where
  "msg_no_audio = ''No se pudo descargar el audio. Verifica la URL y vuelve a intentarlo.''"

definition msg_no_url :: string where
  "msg_no_url = ''Por favor, ingresa una URL de YouTube.''"

definition truthy :: "string option \<Rightarrow> bool" where
  \<comment> \<open>\<open>if video_id:\<close> is false for \<open>None\<close> and for the empty string\<close>
  "truthy v = (case v of None \<Rightarrow> False | Some s \<Rightarrow> s \<noteq> [])"

definition page_resolved :: "string \<Rightarrow> ui_event list" where
  \<comment> \<open>lines 116 to 122\<close>
  "page_resolved video_id =
     [St_success (''ID del Video: '' @ [CHR 0x60] @ video_id @ [CHR 0x60]),
      St_video (''https://www.youtube.com/watch?v='' @ video_id),
      St_spinner ''Descargando el audio...'']"

definition page_downloaded :: "ui_event list" where
  \<comment> \<open>lines 129 to 132\<close>
  "page_downloaded =
     [St_success ''Audio descargado correctamente.'',
      St_spinner ''Transcribiendo el audio...'']"

definition page_transcription :: "string \<Rightarrow> string \<Rightarrow> ui_event list" where
  \<comment> \<open>lines 137 to 146\<close>
  "page_transcription video_id transcription =
     [St_subheader (''Transcripci'' @ [CHR 0xC3, CHR 0xB3] @ ''n:''),
      St_write transcription,
      St_download_button (''Descargar Transcripci'' @ [CHR 0xC3, CHR 0xB3] @ ''n'')
        transcription (video_id @ ''_transcription.txt'') ''text/plain'']"

definition main :: "pylib \<Rightarrow> 'm services \<Rightarrow> inputs \<Rightarrow> world \<Rightarrow> (exn + unit) \<times> world" where
  "main lib svc inp w0 =
     (let w1 = st page_head w0
      in if clicked inp then
           if youtube_url inp \<noteq> [] then
             (case extract_video_id lib (youtube_url inp) of
                Inl e \<Rightarrow> (Inl e, w1)
              | Inr v \<Rightarrow>
                  if truthy v then
                    (let video_id = the v;
                         w2 = st (page_resolved video_id) w1;
                         audio_filename = video_id @ ''.mp3''
                     in case download_audio svc (youtube_url inp) ''audios'' audio_filename w2 of
                          (Inl e, w3) \<Rightarrow> (Inl e, w3)
                        | (Inr _, w3) \<Rightarrow>
                            (let audio_path = os_path_join ''audios'' audio_filename;
                                 found = os_path_exists (fs w3) audio_path;
                                 w4 = called (Exists audio_path found) w3
                             in if found then
                                  (let w5 = st page_downloaded w4
                                   in case transcribe_audio svc audio_path (model_name inp)
                                             (language inp) w5 of
                                        (Inl e, w6) \<Rightarrow> (Inl e, w6)
                                      | (Inr transcription, w6) \<Rightarrow>
                                          if \<not> py_in transcription_error_marker transcription
                                          then (Inr (), st (page_transcription video_id transcription) w6)
                                          else (Inr (), st [St_error transcription] w6))
                                else (Inr (), st [St_error msg_no_audio] w4)))
                  else (Inr (), st [St_error msg_no_id] w1))
           else (Inr (), st [St_warning msg_no_url] w1)
         else (Inr (), w1))"


section \<open>Stand-ins for the external services\<close>

text \<open>
  Concrete services, for running the program on concrete inputs. \<open>stub_lib\<close> answers the
  three library calls that the URL parser leaves open; none of the URLs below reaches
  them. \<open>stub_services\<close> takes the behaviour of the download engine and of the recognition
  engine; its \<open>os.makedirs\<close> creates the directory.
\<close>

definition stub_lib :: pylib where
  "stub_lib =
     \<lparr>ip_address = (\<lambda>_. Inl (value_error ''does not appear to be an IPv4 or IPv6 address'')),
      nfkc_normalize = (\<lambda>s. s),
      decode_utf8_replace = (\<lambda>s. s)\<rparr>"

definition download_writes :: "ydl_opts \<Rightarrow> filesystem \<Rightarrow> (exn + unit) \<times> filesystem" where
  "download_writes opts files = (Inr (), insert (outtmpl opts) files)"

definition download_writes_nothing :: "ydl_opts \<Rightarrow> filesystem \<Rightarrow> (exn + unit) \<times> filesystem" where
  "download_writes_nothing opts files = (Inr (), files)"

definition download_raises :: "ydl_opts \<Rightarrow> filesystem \<Rightarrow> (exn + unit) \<times> filesystem" where
  "download_raises opts files = (Inl (Exn ''DownloadError'' ''ERROR: Video unavailable''), files)"

definition recognizes :: "string \<Rightarrow> string \<Rightarrow> filesystem \<Rightarrow> exn + (string \<rightharpoonup> string)" where
  \<comment> \<open>returns the given text for a file that exists, raises for one that does not\<close>
  "recognizes text p files =
     (if p \<in> files then Inr [''text'' \<mapsto> text]
      else Inl (Exn ''RuntimeError'' ''Failed to load audio''))"

definition interrupted :: "string \<Rightarrow> filesystem \<Rightarrow> exn + (string \<rightharpoonup> string)" where
  \<comment> \<open>a recognition that is interrupted from the keyboard\<close>
  "interrupted p files = Inl (BaseExn ''KeyboardInterrupt'' [])"

definition stub_services ::
  "(ydl_opts \<Rightarrow> filesystem \<Rightarrow> (exn + unit) \<times> filesystem) \<Rightarrow>
   (string \<Rightarrow> filesystem \<Rightarrow> exn + (string \<rightharpoonup> string)) \<Rightarrow> unit services" where
  "stub_services dl tr =
     \<lparr>os_makedirs = (\<lambda>d files. (Inr (), insert d files)),
      ydl_download = (\<lambda>opts urls files. dl opts files),
      whisper_load_model = (\<lambda>name. if name \<in> set models then Inr ()
                                    else Inl (Exn ''RuntimeError'' ''Model not found'')),
      model_transcribe = (\<lambda>m p lang files. tr p files)\<rparr>"

definition empty_world :: world where
  "empty_world = \<lparr>fs = {}, ui = [], calls = []\<rparr>"


section \<open>Stepping through \<open>main\<close>\<close>

lemma st_simps [simp]:
  "fs (st es w) = fs w" "calls (st es w) = calls w" "ui (st es w) = ui w @ es"
  by (simp_all add: st_def)

lemma called_simps [simp]:
  "fs (called c w) = fs w" "calls (called c w) = calls w @ [c]" "ui (called c w) = ui w"
  by (simp_all add: called_def)

lemma main_not_clicked:
  "\<not> clicked inp \<Longrightarrow> main lib svc inp w = (Inr (), st page_head w)"
  by (simp add: main_def)

lemma main_no_url:
  "clicked inp \<Longrightarrow> youtube_url inp = [] \<Longrightarrow>
   main lib svc inp w = (Inr (), st [St_warning msg_no_url] (st page_head w))"
  by (simp add: main_def)

lemma main_resolve_raises:
  "clicked inp \<Longrightarrow> youtube_url inp \<noteq> [] \<Longrightarrow>
   extract_video_id lib (youtube_url inp) = Inl e \<Longrightarrow>
   main lib svc inp w = (Inl e, st page_head w)"
  by (simp add: main_def)

lemma main_no_id:
  "clicked inp \<Longrightarrow> youtube_url inp \<noteq> [] \<Longrightarrow>
   extract_video_id lib (youtube_url inp) = Inr v \<Longrightarrow> \<not> truthy v \<Longrightarrow>
   main lib svc inp w = (Inr (), st [St_error msg_no_id] (st page_head w))"
  by (simp add: main_def)

lemma main_download_raises:
  "clicked inp \<Longrightarrow> youtube_url inp \<noteq> [] \<Longrightarrow>
   extract_video_id lib (youtube_url inp) = Inr (Some vid) \<Longrightarrow> vid \<noteq> [] \<Longrightarrow>
   download_audio svc (youtube_url inp) ''audios'' (vid @ ''.mp3'')
     (st (page_resolved vid) (st page_head w)) = (Inl e, w3) \<Longrightarrow>
   main lib svc inp w = (Inl e, w3)"
  by (simp add: main_def truthy_def)

lemma main_no_audio:
  "clicked inp \<Longrightarrow> youtube_url inp \<noteq> [] \<Longrightarrow>
   extract_video_id lib (youtube_url inp) = Inr (Some vid) \<Longrightarrow> vid \<noteq> [] \<Longrightarrow>
   download_audio svc (youtube_url inp) ''audios'' (vid @ ''.mp3'')
     (st (page_resolved vid) (st page_head w)) = (Inr (), w3) \<Longrightarrow>
   os_path_join ''audios'' (vid @ ''.mp3'') \<notin> fs w3 \<Longrightarrow>
   main lib svc inp w =
     (Inr (), st [St_error msg_no_audio]
                (called (Exists (os_path_join ''audios'' (vid @ ''.mp3'')) False) w3))"
  by (simp add: main_def truthy_def os_path_exists_def)

lemma main_transcribed:
  "clicked inp \<Longrightarrow> youtube_url inp \<noteq> [] \<Longrightarrow>
   extract_video_id lib (youtube_url inp) = Inr (Some vid) \<Longrightarrow> vid \<noteq> [] \<Longrightarrow>
   download_audio svc (youtube_url inp) ''audios'' (vid @ ''.mp3'')
     (st (page_resolved vid) (st page_head w)) = (Inr (), w3) \<Longrightarrow>
   os_path_join ''audios'' (vid @ ''.mp3'') \<in> fs w3 \<Longrightarrow>
   transcribe_audio svc (os_path_join ''audios'' (vid @ ''.mp3'')) (model_name inp) (language inp)
     (st page_downloaded (called (Exists (os_path_join ''audios'' (vid @ ''.mp3'')) True) w3))
     = (Inr t, w6) \<Longrightarrow>
   main lib svc inp w =
     (Inr (), st (if py_in transcription_error_marker t then [St_error t]
                  else page_transcription vid t) w6)"
  by (simp add: main_def truthy_def os_path_exists_def)

lemma transcribe_audio_load_fails:
  "whisper_load_model svc m = Inl e \<Longrightarrow>
   transcribe_audio svc p m l w =
     (if is_Exception e then Inr (transcription_error_marker @ '': '' @ exn_str e) else Inl e,
      called (Load_model m) w)"
  by (simp add: transcribe_audio_def transcribe_try_def)

lemma transcribe_audio_engine_fails:
  "whisper_load_model svc m = Inr h \<Longrightarrow> model_transcribe svc h p l (fs w) = Inl e \<Longrightarrow>
   transcribe_audio svc p m l w =
     (if is_Exception e then Inr (transcription_error_marker @ '': '' @ exn_str e) else Inl e,
      called (Transcribe p l) (called (Load_model m) w))"
  by (simp add: transcribe_audio_def transcribe_try_def)

lemma transcribe_audio_raises:
  "fst (transcribe_audio svc p m l w) = Inl e \<Longrightarrow>
   \<not> is_Exception e \<and>
   (whisper_load_model svc m = Inl e \<or>
    (\<exists>h. whisper_load_model svc m = Inr h \<and> model_transcribe svc h p l (fs w) = Inl e))"
  by (auto simp: transcribe_audio_def transcribe_try_def key_error_def Let_def
           split: sum.splits option.splits if_splits)


section \<open>The transcriber\<close>

text \<open>
  Claim C5, as amended. When loading the model raises an exception that derives from
  \<open>Exception\<close>, and when the transcription itself raises one (which is what the engine
  does on a file that is not there), \<open>transcribe_audio\<close> returns the failure text: the
  marker, a colon and a space, then the text of the exception. An exception that leaves
  \<open>transcribe_audio\<close> does not derive from \<open>Exception\<close> and was raised by one of the two
  calls of the engine; such an exception is not caught.
\<close>

theorem transcribe_audio_catches_exceptions:
  "(\<forall>e. whisper_load_model svc m = Inl e \<and> is_Exception e \<longrightarrow>
         fst (transcribe_audio svc p m l w)
           = Inr (transcription_error_marker @ '': '' @ exn_str e))
   \<and> (\<forall>h e. whisper_load_model svc m = Inr h \<and> model_transcribe svc h p l (fs w) = Inl e \<and>
           is_Exception e \<longrightarrow>
         fst (transcribe_audio svc p m l w)
           = Inr (transcription_error_marker @ '': '' @ exn_str e))
   \<and> (\<forall>e. fst (transcribe_audio svc p m l w) = Inl e \<longrightarrow>
         \<not> is_Exception e \<and>
         (whisper_load_model svc m = Inl e \<or>
          (\<exists>h. whisper_load_model svc m = Inr h \<and> model_transcribe svc h p l (fs w) = Inl e)))
   \<and> (\<forall>e. whisper_load_model svc m = Inl e \<and> \<not> is_Exception e \<longrightarrow>
         fst (transcribe_audio svc p m l w) = Inl e)
   \<and> (\<forall>h e. whisper_load_model svc m = Inr h \<and> model_transcribe svc h p l (fs w) = Inl e \<and>
           \<not> is_Exception e \<longrightarrow>
         fst (transcribe_audio svc p m l w) = Inl e)"
proof -
  have a: "\<forall>e. whisper_load_model svc m = Inl e \<and> is_Exception e \<longrightarrow>
         fst (transcribe_audio svc p m l w)
           = Inr (transcription_error_marker @ '': '' @ exn_str e)"
    by (simp add: transcribe_audio_load_fails)
  have b: "\<forall>h e. whisper_load_model svc m = Inr h \<and> model_transcribe svc h p l (fs w) = Inl e \<and>
           is_Exception e \<longrightarrow>
         fst (transcribe_audio svc p m l w)
           = Inr (transcription_error_marker @ '': '' @ exn_str e)"
    by (simp add: transcribe_audio_engine_fails)
  have c: "\<forall>e. fst (transcribe_audio svc p m l w) = Inl e \<longrightarrow>
         \<not> is_Exception e \<and>
         (whisper_load_model svc m = Inl e \<or>
          (\<exists>h. whisper_load_model svc m = Inr h \<and> model_transcribe svc h p l (fs w) = Inl e))"
    by (intro allI impI) (rule transcribe_audio_raises)
  have d: "\<forall>e. whisper_load_model svc m = Inl e \<and> \<not> is_Exception e \<longrightarrow>
         fst (transcribe_audio svc p m l w) = Inl e"
    by (simp add: transcribe_audio_load_fails)
  have e: "\<forall>h e. whisper_load_model svc m = Inr h \<and> model_transcribe svc h p l (fs w) = Inl e \<and>
           \<not> is_Exception e \<longrightarrow>
         fst (transcribe_audio svc p m l w) = Inl e"
    by (simp add: transcribe_audio_engine_fails)
  show ?thesis
    by (intro conjI, rule a, rule b, rule c, rule d, rule e)
qed

theorem transcribe_audio_catches_exceptions_witness:
  "whisper_load_model (stub_services download_writes (recognizes ''hola'')) ''huge''
     = Inl (Exn ''RuntimeError'' ''Model not found'')
   \<and> is_Exception (Exn ''RuntimeError'' ''Model not found'')
   \<and> fst (transcribe_audio (stub_services download_writes (recognizes ''hola''))
            ''audios/abc123.mp3'' ''huge'' ''es'' empty_world)
       = Inr (transcription_error_marker @ '': Model not found'')
   \<and> whisper_load_model (stub_services download_writes (recognizes ''hola'')) ''base'' = Inr ()
   \<and> model_transcribe (stub_services download_writes (recognizes ''hola'')) ()
        ''audios/abc123.mp3'' ''es'' (fs empty_world)
       = Inl (Exn ''RuntimeError'' ''Failed to load audio'')
   \<and> fst (transcribe_audio (stub_services download_writes (recognizes ''hola''))
            ''audios/abc123.mp3'' ''base'' ''es'' empty_world)
       = Inr (transcription_error_marker @ '': Failed to load audio'')
   \<and> model_transcribe (stub_services download_writes interrupted) ()
        ''audios/abc123.mp3'' ''es'' (fs empty_world)
       = Inl (BaseExn ''KeyboardInterrupt'' [])
   \<and> \<not> is_Exception (BaseExn ''KeyboardInterrupt'' [])
   \<and> fst (transcribe_audio (stub_services download_writes interrupted)
            ''audios/abc123.mp3'' ''base'' ''es'' empty_world)
       = Inl (BaseExn ''KeyboardInterrupt'' [])"
proof -
  let ?svc = "stub_services download_writes (recognizes ''hola'')"
  let ?int = "stub_services download_writes interrupted"
  have load_bad: "whisper_load_model ?svc ''huge'' = Inl (Exn ''RuntimeError'' ''Model not found'')"
    by (simp add: stub_services_def models_def)
  have load_ok: "whisper_load_model ?svc ''base'' = Inr ()"
    "whisper_load_model ?int ''base'' = Inr ()"
    by (simp_all add: stub_services_def models_def)
  have no_file: "model_transcribe ?svc () ''audios/abc123.mp3'' ''es'' (fs empty_world)
                   = Inl (Exn ''RuntimeError'' ''Failed to load audio'')"
    by (simp add: stub_services_def recognizes_def empty_world_def)
  have stopped: "model_transcribe ?int () ''audios/abc123.mp3'' ''es'' (fs empty_world)
                   = Inl (BaseExn ''KeyboardInterrupt'' [])"
    by (simp add: stub_services_def interrupted_def)
  note huge = transcribe_audio_catches_exceptions
                [of ?svc "''huge''" "''audios/abc123.mp3''" "''es''" empty_world,
                 THEN conjunct1, rule_format, of "Exn ''RuntimeError'' ''Model not found''"]
  from huge load_bad
  have a: "fst (transcribe_audio ?svc ''audios/abc123.mp3'' ''huge'' ''es'' empty_world)
             = Inr (transcription_error_marker @ '': Model not found'')"
    by simp
  note missing = transcribe_audio_catches_exceptions
                   [of ?svc "''base''" "''audios/abc123.mp3''" "''es''" empty_world,
                    THEN conjunct2, THEN conjunct1, rule_format,
                    of "()" "Exn ''RuntimeError'' ''Failed to load audio''"]
  from missing load_ok no_file
  have b: "fst (transcribe_audio ?svc ''audios/abc123.mp3'' ''base'' ''es'' empty_world)
             = Inr (transcription_error_marker @ '': Failed to load audio'')"
    by simp
  note stop = transcribe_audio_catches_exceptions
                [of ?int "''base''" "''audios/abc123.mp3''" "''es''" empty_world,
                 THEN conjunct2, THEN conjunct2, THEN conjunct2, THEN conjunct2, rule_format,
                 of "()" "BaseExn ''KeyboardInterrupt'' []"]
  from stop load_ok stopped
  have c: "fst (transcribe_audio ?int ''audios/abc123.mp3'' ''base'' ''es'' empty_world)
             = Inl (BaseExn ''KeyboardInterrupt'' [])"
    by simp
  from load_bad load_ok no_file stopped a b c show ?thesis by simp
qed

text \<open>
  Claim C5 as it was stated fails when the engine is interrupted: \<open>KeyboardInterrupt\<close>
  does not derive from \<open>Exception\<close>, the \<open>except\<close> clause does not catch it, and it leaves
  \<open>transcribe_audio\<close>.
\<close>

theorem keyboard_interrupt_leaves_transcribe_audio:
  "transcribe_audio (stub_services download_writes interrupted)
     ''audios/abc123.mp3'' ''base'' ''es''
     \<lparr>fs = {''audios/abc123.mp3'', ''audios''}, ui = [], calls = []\<rparr>
   = (Inl (BaseExn ''KeyboardInterrupt'' []),
      \<lparr>fs = {''audios/abc123.mp3'', ''audios''}, ui = [],
       calls = [Load_model ''base'', Transcribe ''audios/abc123.mp3'' ''es'']\<rparr>)"
  by (simp add: transcribe_audio_def transcribe_try_def stub_services_def models_def
                interrupted_def called_def)

lemma download_audio_trace:
  "download_audio svc url d f w = (r, w') \<Longrightarrow>
   ui w' = ui w \<and>
   (calls w' = calls w @ [Makedirs d] \<and> isl r \<or>
    calls w' = calls w @ [Makedirs d, Download (make_ydl_opts d f) [url]])"
  by (auto simp: download_audio_def Let_def split: prod.splits sum.splits)

lemma download_audio_returns_trace:
  "download_audio svc url d f w = (Inr u, w') \<Longrightarrow>
   calls w' = calls w @ [Makedirs d, Download (make_ydl_opts d f) [url]]"
  by (auto dest: download_audio_trace)

lemma transcribe_audio_trace:
  "transcribe_audio svc p m l w = (r, w') \<Longrightarrow>
   ui w' = ui w \<and> fs w' = fs w \<and>
   (calls w' = calls w @ [Load_model m] \<or> calls w' = calls w @ [Load_model m, Transcribe p l])"
  by (auto simp: transcribe_audio_def transcribe_try_def Let_def
           split: prod.splits sum.splits option.splits if_splits)

lemma split_after:
  "xs @ ys = pre @ c # post \<Longrightarrow> c \<notin> set xs \<Longrightarrow> \<exists>ys'. pre = xs @ ys' \<and> ys = ys' @ c # post"
  by (auto simp: append_eq_append_conv2 append_eq_Cons_conv)

lemma main_trace:
  assumes "main lib svc inp w = (r, w')" and "calls w = []"
  shows "(\<forall>c \<in> set (calls w'). \<not> transcriber_call c)
       \<or> (\<exists>pre p. p \<in> fs w' \<and> (\<forall>c \<in> set pre. \<not> transcriber_call c) \<and>
             (calls w' = pre @ [Exists p True, Load_model (model_name inp)] \<or>
              calls w' = pre @ [Exists p True, Load_model (model_name inp),
                                Transcribe p (language inp)]))"
  using assms
  apply (simp add: main_def Let_def os_path_exists_def split: if_splits sum.splits prod.splits)
           apply (auto simp: transcriber_call_def dest!: download_audio_trace transcribe_audio_trace)
  done


section \<open>The orchestrator\<close>

text \<open>
  Claim C4. Suppose a run resolves an identifier and \<open>download_audio\<close> returns, and the
  audio path is then not in the file system. Then \<open>main\<close> ends normally, the page ends
  with the download-failed error, and the only calls of the run are \<open>os.makedirs\<close>,
  the download and the existence test: the model is not loaded and nothing is
  transcribed. Moreover, in every run that starts with an empty call list, a call that
  loads the model or transcribes a path comes after an existence test of the audio path
  that answered yes, the path transcribed is that path, and it is in the file system.
\<close>

theorem missing_audio_stops_before_transcription:
  "(clicked inp \<and> youtube_url inp \<noteq> [] \<and>
    extract_video_id lib (youtube_url inp) = Inr (Some vid) \<and> vid \<noteq> [] \<and>
    download_audio svc (youtube_url inp) ''audios'' (vid @ ''.mp3'')
      (st (page_resolved vid) (st page_head w)) = (Inr (), w3) \<and>
    os_path_join ''audios'' (vid @ ''.mp3'') \<notin> fs w3
    \<longrightarrow>
      main lib svc inp w =
        (Inr (), \<lparr>fs = fs w3,
                  ui = ui w @ page_head @ page_resolved vid @ [St_error msg_no_audio],
                  calls = calls w @
                    [Makedirs ''audios'',
                     Download (make_ydl_opts ''audios'' (vid @ ''.mp3'')) [youtube_url inp],
                     Exists (os_path_join ''audios'' (vid @ ''.mp3'')) False]\<rparr>))
   \<and> (calls w = [] \<longrightarrow>
        (\<forall>c pre post. calls (snd (main lib svc inp w)) = pre @ c # post \<and>
            ((\<exists>m. c = Load_model m) \<or> (\<exists>q l. c = Transcribe q l)) \<longrightarrow>
            (\<exists>p. Exists p True \<in> set pre \<and> p \<in> fs (snd (main lib svc inp w)) \<and>
                 (\<forall>q l. c = Transcribe q l \<longrightarrow> q = p))))"
proof (intro conjI impI allI)
  assume h: "clicked inp \<and> youtube_url inp \<noteq> [] \<and>
    extract_video_id lib (youtube_url inp) = Inr (Some vid) \<and> vid \<noteq> [] \<and>
    download_audio svc (youtube_url inp) ''audios'' (vid @ ''.mp3'')
      (st (page_resolved vid) (st page_head w)) = (Inr (), w3) \<and>
    os_path_join ''audios'' (vid @ ''.mp3'') \<notin> fs w3"
  then have dl: "download_audio svc (youtube_url inp) ''audios'' (vid @ ''.mp3'')
      (st (page_resolved vid) (st page_head w)) = (Inr (), w3)"
    by simp
  have c3: "calls w3 = calls w @ [Makedirs ''audios'',
              Download (make_ydl_opts ''audios'' (vid @ ''.mp3'')) [youtube_url inp]]"
    using download_audio_returns_trace [OF dl] by simp
  have u3: "ui w3 = ui w @ page_head @ page_resolved vid"
    using download_audio_trace [OF dl] by simp
  from h have "main lib svc inp w =
     (Inr (), st [St_error msg_no_audio]
                (called (Exists (os_path_join ''audios'' (vid @ ''.mp3'')) False) w3))"
    by (intro main_no_audio) simp_all
  then show "main lib svc inp w =
        (Inr (), \<lparr>fs = fs w3,
                  ui = ui w @ page_head @ page_resolved vid @ [St_error msg_no_audio],
                  calls = calls w @
                    [Makedirs ''audios'',
                     Download (make_ydl_opts ''audios'' (vid @ ''.mp3'')) [youtube_url inp],
                     Exists (os_path_join ''audios'' (vid @ ''.mp3'')) False]\<rparr>)"
    by (simp add: st_def called_def c3 u3)
next
  fix c pre post
  assume e: "calls w = []"
    and s: "calls (snd (main lib svc inp w)) = pre @ c # post \<and>
            ((\<exists>m. c = Load_model m) \<or> (\<exists>q l. c = Transcribe q l))"
  obtain r w' where m: "main lib svc inp w = (r, w')"
    by (cases "main lib svc inp w")
  from s m have cs: "calls w' = pre @ c # post" and tc: "transcriber_call c"
    by (auto simp: transcriber_call_def)
  from cs tc have "\<not> (\<forall>c \<in> set (calls w'). \<not> transcriber_call c)"
    by auto
  with main_trace [OF m e] obtain pre0 p where p: "p \<in> fs w'"
    and pre0: "\<forall>c \<in> set pre0. \<not> transcriber_call c"
    and shape: "calls w' = pre0 @ [Exists p True, Load_model (model_name inp)] \<or>
                calls w' = pre0 @ [Exists p True, Load_model (model_name inp),
                                   Transcribe p (language inp)]"
    by blast
  from pre0 tc have notin: "c \<notin> set pre0"
    by blast
  from shape have "Exists p True \<in> set pre \<and> (\<forall>q l. c = Transcribe q l \<longrightarrow> q = p)"
  proof
    assume "calls w' = pre0 @ [Exists p True, Load_model (model_name inp)]"
    with cs have "pre0 @ [Exists p True, Load_model (model_name inp)] = pre @ c # post"
      by simp
    from split_after [OF this notin] tc show ?thesis
      by (auto simp: transcriber_call_def Cons_eq_append_conv)
  next
    assume "calls w' = pre0 @ [Exists p True, Load_model (model_name inp),
                               Transcribe p (language inp)]"
    with cs have "pre0 @ [Exists p True, Load_model (model_name inp),
                          Transcribe p (language inp)] = pre @ c # post"
      by simp
    from split_after [OF this notin] tc show ?thesis
      by (auto simp: transcriber_call_def Cons_eq_append_conv)
  qed
  with p m
  show "\<exists>p. Exists p True \<in> set pre \<and> p \<in> fs (snd (main lib svc inp w)) \<and>
            (\<forall>q l. c = Transcribe q l \<longrightarrow> q = p)"
    by auto
qed


theorem missing_audio_stops_before_transcription_witness:
  "extract_video_id stub_lib ''https://youtu.be/abc123'' = Inr (Some ''abc123'')
   \<and> download_audio (stub_services download_writes_nothing (recognizes ''hola''))
         ''https://youtu.be/abc123'' ''audios'' (''abc123'' @ ''.mp3'')
         (st (page_resolved ''abc123'') (st page_head empty_world))
       = (Inr (), \<lparr>fs = {''audios''}, ui = page_head @ page_resolved ''abc123'',
                   calls = [Makedirs ''audios'',
                            Download (make_ydl_opts ''audios'' ''abc123.mp3'')
                              [''https://youtu.be/abc123'']]\<rparr>)
   \<and> os_path_join ''audios'' (''abc123'' @ ''.mp3'') \<notin> {''audios''}
   \<and> main stub_lib (stub_services download_writes_nothing (recognizes ''hola''))
         \<lparr>youtube_url = ''https://youtu.be/abc123'', language = ''es'', model_name = ''base'',
          clicked = True\<rparr> empty_world
       = (Inr (), \<lparr>fs = {''audios''},
                   ui = page_head @ page_resolved ''abc123'' @ [St_error msg_no_audio],
                   calls = [Makedirs ''audios'',
                            Download (make_ydl_opts ''audios'' ''abc123.mp3'')
                              [''https://youtu.be/abc123''],
                            Exists ''audios/abc123.mp3'' False]\<rparr>)
   \<and> calls (snd (main stub_lib (stub_services download_writes (recognizes ''hola''))
         \<lparr>youtube_url = ''https://youtu.be/abc123'', language = ''es'', model_name = ''base'',
          clicked = True\<rparr> empty_world))
       = [Makedirs ''audios'',
          Download (make_ydl_opts ''audios'' ''abc123.mp3'') [''https://youtu.be/abc123''],
          Exists ''audios/abc123.mp3'' True, Load_model ''base'',
          Transcribe ''audios/abc123.mp3'' ''es'']"
proof -
  let ?svc = "stub_services download_writes_nothing (recognizes ''hola'')"
  let ?inp = "\<lparr>youtube_url = ''https://youtu.be/abc123'', language = ''es'',
               model_name = ''base'', clicked = True\<rparr>"
  let ?w3 = "\<lparr>fs = {''audios''}, ui = page_head @ page_resolved ''abc123'',
              calls = [Makedirs ''audios'',
                       Download (make_ydl_opts ''audios'' ''abc123.mp3'')
                         [''https://youtu.be/abc123'']]\<rparr>"
  have id: "extract_video_id stub_lib ''https://youtu.be/abc123'' = Inr (Some ''abc123'')"
    by code_simp
  have dl: "download_audio ?svc ''https://youtu.be/abc123'' ''audios'' (''abc123'' @ ''.mp3'')
              (st (page_resolved ''abc123'') (st page_head empty_world)) = (Inr (), ?w3)"
    by (simp add: download_audio_def stub_services_def download_writes_nothing_def
                  empty_world_def st_def called_def Let_def)
  have path: "os_path_join ''audios'' ''abc123.mp3'' = ''audios/abc123.mp3''"
    by (simp add: os_path_join_def suffix_def)
  have absent: "os_path_join ''audios'' (''abc123'' @ ''.mp3'') \<notin> {''audios''}"
    by (simp add: path)
  from missing_audio_stops_before_transcription
         [of ?inp stub_lib "''abc123''" ?svc empty_world ?w3] id dl absent
  have run: "main stub_lib ?svc ?inp empty_world
       = (Inr (), \<lparr>fs = {''audios''},
                   ui = page_head @ page_resolved ''abc123'' @ [St_error msg_no_audio],
                   calls = [Makedirs ''audios'',
                            Download (make_ydl_opts ''audios'' ''abc123.mp3'')
                              [''https://youtu.be/abc123''],
                            Exists ''audios/abc123.mp3'' False]\<rparr>)"
    by (simp add: empty_world_def path)
  have good: "calls (snd (main stub_lib (stub_services download_writes (recognizes ''hola''))
                 ?inp empty_world))
       = [Makedirs ''audios'',
          Download (make_ydl_opts ''audios'' ''abc123.mp3'') [''https://youtu.be/abc123''],
          Exists ''audios/abc123.mp3'' True, Load_model ''base'',
          Transcribe ''audios/abc123.mp3'' ''es'']"
    by (simp add: main_def id truthy_def download_audio_def stub_services_def
                  download_writes_def empty_world_def st_def called_def Let_def path
                  make_ydl_opts_def os_path_exists_def transcribe_audio_def transcribe_try_def
                  models_def recognizes_def
             split: prod.splits sum.splits)
  from id dl absent run good show ?thesis
    by simp
qed

text \<open>
  Claim C1. The download engine raises and nothing catches it: \<open>download_audio\<close> has no
  \<open>try\<close>, and neither has \<open>main\<close> around its call. On a URL that resolves, with an engine
  that raises \<open>DownloadError\<close>, the run of \<open>main\<close> ends in that exception; the page holds
  the elements drawn before the download and no error message.
\<close>

theorem download_error_escapes_main:
  "main stub_lib (stub_services download_raises (recognizes ''hola''))
     \<lparr>youtube_url = ''https://youtu.be/abc123'', language = ''es'', model_name = ''base'',
      clicked = True\<rparr> empty_world
   = (Inl (Exn ''DownloadError'' ''ERROR: Video unavailable''),
      \<lparr>fs = {''audios''},
       ui = page_head @ page_resolved ''abc123'',
       calls = [Makedirs ''audios'',
                Download (make_ydl_opts ''audios'' ''abc123.mp3'') [''https://youtu.be/abc123'']]\<rparr>)"
proof -
  have id: "extract_video_id stub_lib ''https://youtu.be/abc123'' = Inr (Some ''abc123'')"
    by code_simp
  show ?thesis
    by (simp add: main_def id truthy_def download_audio_def stub_services_def download_raises_def
                  empty_world_def st_def called_def Let_def)
qed

text \<open>
  Claim C9, as amended. When the button is pressed on a URL that is not empty and
  \<open>extract_video_id\<close> returns \<open>None\<close>, \<open>main\<close> ends with the identifier-not-extractable
  error; the file system and the list of calls are what they were, so the working
  directory was not created and nothing was downloaded. On the empty URL the page
  ends with the enter-a-URL warning instead, and again nothing is written.
\<close>

theorem unresolved_url_halts_without_writes:
  "(clicked inp \<and> youtube_url inp \<noteq> [] \<and> extract_video_id lib (youtube_url inp) = Inr None
    \<longrightarrow> main lib svc inp w =
          (Inr (), \<lparr>fs = fs w, ui = ui w @ page_head @ [St_error msg_no_id], calls = calls w\<rparr>))
   \<and> (clicked inp \<and> youtube_url inp = []
    \<longrightarrow> main lib svc inp w =
          (Inr (), \<lparr>fs = fs w, ui = ui w @ page_head @ [St_warning msg_no_url], calls = calls w\<rparr>))"
  by (simp add: main_no_id main_no_url truthy_def st_def)

theorem unresolved_url_halts_without_writes_witness:
  "extract_video_id stub_lib ''https://example.com/'' = Inr None
   \<and> main stub_lib (stub_services download_writes (recognizes ''hola''))
        \<lparr>youtube_url = ''https://example.com/'', language = ''es'', model_name = ''base'',
         clicked = True\<rparr> empty_world
      = (Inr (), \<lparr>fs = {}, ui = page_head @ [St_error msg_no_id], calls = []\<rparr>)
   \<and> main stub_lib (stub_services download_writes (recognizes ''hola''))
        \<lparr>youtube_url = [], language = ''es'', model_name = ''base'', clicked = True\<rparr> empty_world
      = (Inr (), \<lparr>fs = {}, ui = page_head @ [St_warning msg_no_url], calls = []\<rparr>)"
proof -
  have none: "extract_video_id stub_lib ''https://example.com/'' = Inr None"
    by code_simp
  from none
    unresolved_url_halts_without_writes
      [of "\<lparr>youtube_url = ''https://example.com/'', language = ''es'', model_name = ''base'',
            clicked = True\<rparr>" stub_lib "stub_services download_writes (recognizes ''hola'')"
          empty_world]
    unresolved_url_halts_without_writes
      [of "\<lparr>youtube_url = [], language = ''es'', model_name = ''base'', clicked = True\<rparr>"
          stub_lib "stub_services download_writes (recognizes ''hola'')" empty_world]
  show ?thesis
    by (simp add: empty_world_def)
qed

text \<open>
  Claim C9 as it was stated fails on the empty URL: \<open>extract_video_id\<close> returns \<open>None\<close> on
  it, and the page ends with the warning, not with the identifier-not-extractable error.
\<close>

theorem empty_url_is_warned_not_refused:
  "extract_video_id stub_lib [] = Inr None
   \<and> main stub_lib (stub_services download_writes (recognizes ''hola''))
        \<lparr>youtube_url = [], language = ''es'', model_name = ''base'', clicked = True\<rparr> empty_world
      = (Inr (), \<lparr>fs = {}, ui = page_head @ [St_warning msg_no_url], calls = []\<rparr>)
   \<and> St_error msg_no_id \<notin> set (page_head @ [St_warning msg_no_url])"
proof -
  have none: "extract_video_id stub_lib [] = Inr None"
    by code_simp
  have run: "main stub_lib (stub_services download_writes (recognizes ''hola''))
        \<lparr>youtube_url = [], language = ''es'', model_name = ''base'', clicked = True\<rparr> empty_world
      = (Inr (), \<lparr>fs = {}, ui = page_head @ [St_warning msg_no_url], calls = []\<rparr>)"
    by (simp add: main_def st_def empty_world_def)
  have "St_error msg_no_id \<notin> set (page_head @ [St_warning msg_no_url])"
    by (simp add: page_head_def)
  with none run show ?thesis by simp
qed


lemma py_in_iff: "py_in n h \<longleftrightarrow> (\<exists>a b. h = a @ n @ b)"
proof (induction h)
  case Nil
  show ?case by auto
next
  case (Cons x xs)
  show ?case
  proof
    assume "py_in n (x # xs)"
    then consider "prefix n (x # xs)" | "py_in n xs"
      by auto
    then show "\<exists>a b. x # xs = a @ n @ b"
    proof cases
      case 1
      then obtain b where "x # xs = n @ b"
        by (auto simp: prefix_def)
      then have "x # xs = [] @ n @ b" by simp
      then show ?thesis by blast
    next
      case 2
      with Cons.IH obtain a b where "xs = a @ n @ b" by blast
      then have "x # xs = (x # a) @ n @ b" by simp
      then show ?thesis by blast
    qed
  next
    assume "\<exists>a b. x # xs = a @ n @ b"
    then obtain a b where ab: "x # xs = a @ n @ b" by blast
    show "py_in n (x # xs)"
    proof (cases a)
      case Nil
      with ab have "prefix n (x # xs)" by (simp add: prefix_def)
      then show ?thesis by simp
    next
      case (Cons y ys)
      with ab have "xs = ys @ n @ b" by simp
      with Cons.IH have "py_in n xs" by blast
      then show ?thesis by simp
    qed
  qed
qed

text \<open>
  Claim C10, as amended. When the body of the \<open>try\<close> raises an exception that the
  \<open>except\<close> clause catches, \<open>transcribe_audio\<close> returns the
  marker \<open>Error durante la transcripci\'on\<close>, a colon and a space, and the text of the
  exception. In a run that reaches the transcriber, \<open>main\<close> shows the transcription and
  the download button exactly when the marker, without the colon and the space, occurs
  nowhere in the returned text, and the error otherwise. So every failure text is shown
  as an error, and so is every text that holds the marker anywhere.
\<close>

theorem transcription_failure_is_detected_by_marker:
  "(\<forall>e w'. transcribe_try svc p m l w0 = (Inl e, w') \<and> is_Exception e \<longrightarrow>
       transcribe_audio svc p m l w0
         = (Inr (transcription_error_marker @ '': '' @ exn_str e), w'))
   \<and> (clicked inp \<and> youtube_url inp \<noteq> [] \<and>
       extract_video_id lib (youtube_url inp) = Inr (Some vid) \<and> vid \<noteq> [] \<and>
       download_audio svc (youtube_url inp) ''audios'' (vid @ ''.mp3'')
         (st (page_resolved vid) (st page_head w)) = (Inr (), w3) \<and>
       os_path_join ''audios'' (vid @ ''.mp3'') \<in> fs w3 \<and>
       transcribe_audio svc (os_path_join ''audios'' (vid @ ''.mp3'')) (model_name inp)
         (language inp)
         (st page_downloaded (called (Exists (os_path_join ''audios'' (vid @ ''.mp3'')) True) w3))
         = (Inr t, w6)
       \<longrightarrow> main lib svc inp w =
             (Inr (), st (if py_in transcription_error_marker t then [St_error t]
                          else page_transcription vid t) w6))
   \<and> (\<forall>msg. py_in transcription_error_marker (transcription_error_marker @ '': '' @ msg))
   \<and> (\<forall>a b. py_in transcription_error_marker (a @ transcription_error_marker @ b))"
proof (intro conjI allI impI)
  fix e w'
  assume "transcribe_try svc p m l w0 = (Inl e, w') \<and> is_Exception e"
  then show "transcribe_audio svc p m l w0
               = (Inr (transcription_error_marker @ '': '' @ exn_str e), w')"
    by (simp add: transcribe_audio_def)
next
  assume h: "clicked inp \<and> youtube_url inp \<noteq> [] \<and>
       extract_video_id lib (youtube_url inp) = Inr (Some vid) \<and> vid \<noteq> [] \<and>
       download_audio svc (youtube_url inp) ''audios'' (vid @ ''.mp3'')
         (st (page_resolved vid) (st page_head w)) = (Inr (), w3) \<and>
       os_path_join ''audios'' (vid @ ''.mp3'') \<in> fs w3 \<and>
       transcribe_audio svc (os_path_join ''audios'' (vid @ ''.mp3'')) (model_name inp)
         (language inp)
         (st page_downloaded (called (Exists (os_path_join ''audios'' (vid @ ''.mp3'')) True) w3))
         = (Inr t, w6)"
  then show "main lib svc inp w =
             (Inr (), st (if py_in transcription_error_marker t then [St_error t]
                          else page_transcription vid t) w6)"
    by (elim conjE) (rule main_transcribed; assumption)
next
  fix msg
  have "transcription_error_marker @ '': '' @ msg
          = [] @ transcription_error_marker @ ('': '' @ msg)"
    by simp
  then show "py_in transcription_error_marker (transcription_error_marker @ '': '' @ msg)"
    unfolding py_in_iff by blast
next
  fix a b
  show "py_in transcription_error_marker (a @ transcription_error_marker @ b)"
    unfolding py_in_iff by blast
qed


theorem transcription_failure_is_detected_by_marker_witness:
  "transcribe_try (stub_services download_writes (recognizes ''hola''))
       ''audios/abc123.mp3'' ''huge'' ''es'' empty_world
     = (Inl (Exn ''RuntimeError'' ''Model not found''),
        \<lparr>fs = {}, ui = [], calls = [Load_model ''huge'']\<rparr>)
   \<and> transcribe_audio (stub_services download_writes (recognizes ''hola''))
       ''audios/abc123.mp3'' ''huge'' ''es'' empty_world
     = (Inr (transcription_error_marker @ '': Model not found''),
        \<lparr>fs = {}, ui = [], calls = [Load_model ''huge'']\<rparr>)
   \<and> extract_video_id stub_lib ''https://youtu.be/abc123'' = Inr (Some ''abc123'')
   \<and> download_audio (stub_services download_writes (recognizes ''hola''))
         ''https://youtu.be/abc123'' ''audios'' ''abc123.mp3''
         (st (page_resolved ''abc123'') (st page_head empty_world))
       = (Inr (), \<lparr>fs = {''audios/abc123.mp3'', ''audios''},
                   ui = page_head @ page_resolved ''abc123'',
                   calls = [Makedirs ''audios'',
                            Download (make_ydl_opts ''audios'' ''abc123.mp3'')
                              [''https://youtu.be/abc123'']]\<rparr>)
   \<and> os_path_join ''audios'' ''abc123.mp3'' \<in> {''audios/abc123.mp3'', ''audios''}
   \<and> \<not> py_in transcription_error_marker ''hola''
   \<and> main stub_lib (stub_services download_writes (recognizes ''hola''))
         \<lparr>youtube_url = ''https://youtu.be/abc123'', language = ''es'', model_name = ''base'',
          clicked = True\<rparr> empty_world
       = (Inr (), \<lparr>fs = {''audios/abc123.mp3'', ''audios''},
                   ui = page_head @ page_resolved ''abc123'' @ page_downloaded @
                        page_transcription ''abc123'' ''hola'',
                   calls = [Makedirs ''audios'',
                            Download (make_ydl_opts ''audios'' ''abc123.mp3'')
                              [''https://youtu.be/abc123''],
                            Exists ''audios/abc123.mp3'' True, Load_model ''base'',
                            Transcribe ''audios/abc123.mp3'' ''es'']\<rparr>)"
proof -
  let ?svc = "stub_services download_writes (recognizes ''hola'')"
  let ?inp = "\<lparr>youtube_url = ''https://youtu.be/abc123'', language = ''es'',
               model_name = ''base'', clicked = True\<rparr>"
  let ?w3 = "\<lparr>fs = {''audios/abc123.mp3'', ''audios''},
              ui = page_head @ page_resolved ''abc123'',
              calls = [Makedirs ''audios'',
                       Download (make_ydl_opts ''audios'' ''abc123.mp3'')
                         [''https://youtu.be/abc123'']]\<rparr>"
  let ?w6 = "\<lparr>fs = {''audios/abc123.mp3'', ''audios''},
              ui = page_head @ page_resolved ''abc123'' @ page_downloaded,
              calls = [Makedirs ''audios'',
                       Download (make_ydl_opts ''audios'' ''abc123.mp3'')
                         [''https://youtu.be/abc123''],
                       Exists ''audios/abc123.mp3'' True, Load_model ''base'',
                       Transcribe ''audios/abc123.mp3'' ''es'']\<rparr>"
  have try_bad: "transcribe_try ?svc ''audios/abc123.mp3'' ''huge'' ''es'' empty_world
     = (Inl (Exn ''RuntimeError'' ''Model not found''),
        \<lparr>fs = {}, ui = [], calls = [Load_model ''huge'']\<rparr>)"
    by (simp add: transcribe_try_def stub_services_def models_def empty_world_def called_def)
  have id: "extract_video_id stub_lib ''https://youtu.be/abc123'' = Inr (Some ''abc123'')"
    by code_simp
  have path: "os_path_join ''audios'' ''abc123.mp3'' = ''audios/abc123.mp3''"
    by (simp add: os_path_join_def suffix_def)
  have dl: "download_audio ?svc ''https://youtu.be/abc123'' ''audios'' ''abc123.mp3''
              (st (page_resolved ''abc123'') (st page_head empty_world)) = (Inr (), ?w3)"
    by (simp add: download_audio_def stub_services_def download_writes_def
                  empty_world_def st_def called_def Let_def make_ydl_opts_def path)
  have present: "os_path_join ''audios'' ''abc123.mp3'' \<in> {''audios/abc123.mp3'', ''audios''}"
    by (simp add: path)
  have tr: "transcribe_audio ?svc (os_path_join ''audios'' ''abc123.mp3'') ''base'' ''es''
              (st page_downloaded
                 (called (Exists (os_path_join ''audios'' ''abc123.mp3'') True) ?w3))
            = (Inr ''hola'', ?w6)"
    by (simp add: transcribe_audio_def transcribe_try_def stub_services_def models_def
                  recognizes_def st_def called_def path)
  have clean: "\<not> py_in transcription_error_marker ''hola''"
    by (simp add: transcription_error_marker_def)
  from transcription_failure_is_detected_by_marker
         [of ?svc "''audios/abc123.mp3''" "''huge''" "''es''" empty_world ?inp stub_lib
             "''abc123''" empty_world ?w3 "''hola''" ?w6]
       try_bad id dl present tr clean
  have "transcribe_audio ?svc ''audios/abc123.mp3'' ''huge'' ''es'' empty_world
          = (Inr (transcription_error_marker @ '': Model not found''),
             \<lparr>fs = {}, ui = [], calls = [Load_model ''huge'']\<rparr>)
      \<and> main stub_lib ?svc ?inp empty_world
          = (Inr (), st (page_transcription ''abc123'' ''hola'') ?w6)"
    by (simp add: path)
  with try_bad id dl present clean show ?thesis
    by (simp add: st_def)
qed

text \<open>
  Claim C10 as it was stated fails on a transcription that is the marker alone: the
  failure prefix, with its colon and space, does not occur in it, the recognition engine
  returned it without raising, and \<open>main\<close> shows it as an error.
\<close>

theorem marker_without_colon_is_a_failure:
  "\<not> py_in (transcription_error_marker @ '': '') transcription_error_marker
   \<and> fst (transcribe_try (stub_services download_writes (recognizes transcription_error_marker))
            ''audios/abc123.mp3'' ''base'' ''es''
            \<lparr>fs = {''audios/abc123.mp3'', ''audios''}, ui = [], calls = []\<rparr>)
       = Inr transcription_error_marker
   \<and> main stub_lib (stub_services download_writes (recognizes transcription_error_marker))
         \<lparr>youtube_url = ''https://youtu.be/abc123'', language = ''es'', model_name = ''base'',
          clicked = True\<rparr> empty_world
       = (Inr (), \<lparr>fs = {''audios/abc123.mp3'', ''audios''},
                   ui = page_head @ page_resolved ''abc123'' @ page_downloaded @
                        [St_error transcription_error_marker],
                   calls = [Makedirs ''audios'',
                            Download (make_ydl_opts ''audios'' ''abc123.mp3'')
                              [''https://youtu.be/abc123''],
                            Exists ''audios/abc123.mp3'' True, Load_model ''base'',
                            Transcribe ''audios/abc123.mp3'' ''es'']\<rparr>)"
proof -
  have a: "\<not> py_in (transcription_error_marker @ '': '') transcription_error_marker"
    by (simp add: transcription_error_marker_def)
  have b: "fst (transcribe_try
                  (stub_services download_writes (recognizes transcription_error_marker))
                  ''audios/abc123.mp3'' ''base'' ''es''
                  \<lparr>fs = {''audios/abc123.mp3'', ''audios''}, ui = [], calls = []\<rparr>)
             = Inr transcription_error_marker"
    by (simp add: transcribe_try_def stub_services_def models_def recognizes_def called_def)
  have id: "extract_video_id stub_lib ''https://youtu.be/abc123'' = Inr (Some ''abc123'')"
    by code_simp
  have path: "os_path_join ''audios'' ''abc123.mp3'' = ''audios/abc123.mp3''"
    by (simp add: os_path_join_def suffix_def)
  have marked: "py_in transcription_error_marker transcription_error_marker"
    unfolding py_in_iff by (metis append_Nil append_Nil2)
  have c: "main stub_lib (stub_services download_writes (recognizes transcription_error_marker))
         \<lparr>youtube_url = ''https://youtu.be/abc123'', language = ''es'', model_name = ''base'',
          clicked = True\<rparr> empty_world
       = (Inr (), \<lparr>fs = {''audios/abc123.mp3'', ''audios''},
                   ui = page_head @ page_resolved ''abc123'' @ page_downloaded @
                        [St_error transcription_error_marker],
                   calls = [Makedirs ''audios'',
                            Download (make_ydl_opts ''audios'' ''abc123.mp3'')
                              [''https://youtu.be/abc123''],
                            Exists ''audios/abc123.mp3'' True, Load_model ''base'',
                            Transcribe ''audios/abc123.mp3'' ''es'']\<rparr>)"
    by (simp add: main_def id truthy_def download_audio_def stub_services_def
                  download_writes_def empty_world_def st_def called_def Let_def path
                  make_ydl_opts_def os_path_exists_def transcribe_audio_def transcribe_try_def
                  models_def recognizes_def marked)
  from a b c show ?thesis by simp
qed


section \<open>Where the audio file goes\<close>

lemma audio_path_in_working_dir:
  "\<not> prefix ''/'' vid \<Longrightarrow> os_path_join ''audios'' (vid @ ''.mp3'') = ''audios/'' @ vid @ ''.mp3''"
  by (cases vid) (simp_all add: os_path_join_def suffix_def)

text \<open>
  Claim C8. The path is built with \<open>os.path.join\<close>, which drops the directory when the
  file name starts with a slash. The fallback of \<open>extract_video_id\<close> returns the \<open>v\<close>
  parameter as it is, so on \<open>https://www.youtube.com/watch?v=/abc\<close> the identifier is
  \<open>/abc\<close>, the download engine is told to write \<open>/abc.mp3\<close>, and that path is the one
  tested and transcribed: the audio is not under \<open>audios\<close>.
\<close>

theorem slash_identifier_leaves_working_dir:
  "extract_video_id stub_lib ''https://www.youtube.com/watch?v=/abc'' = Inr (Some ''/abc'')
   \<and> outtmpl (make_ydl_opts ''audios'' (''/abc'' @ ''.mp3'')) = ''/abc.mp3''
   \<and> main stub_lib (stub_services download_writes (recognizes ''hola''))
         \<lparr>youtube_url = ''https://www.youtube.com/watch?v=/abc'', language = ''es'',
          model_name = ''base'', clicked = True\<rparr> empty_world
       = (Inr (), \<lparr>fs = {''/abc.mp3'', ''audios''},
                   ui = page_head @ page_resolved ''/abc'' @ page_downloaded @
                        page_transcription ''/abc'' ''hola'',
                   calls = [Makedirs ''audios'',
                            Download (make_ydl_opts ''audios'' ''/abc.mp3'')
                              [''https://www.youtube.com/watch?v=/abc''],
                            Exists ''/abc.mp3'' True, Load_model ''base'',
                            Transcribe ''/abc.mp3'' ''es'']\<rparr>)"
proof -
  have id: "extract_video_id stub_lib ''https://www.youtube.com/watch?v=/abc''
              = Inr (Some ''/abc'')"
    by code_simp
  have path: "os_path_join ''audios'' ''/abc.mp3'' = ''/abc.mp3''"
    by (simp add: os_path_join_def)
  have tmpl: "outtmpl (make_ydl_opts ''audios'' (''/abc'' @ ''.mp3'')) = ''/abc.mp3''"
    by (simp add: make_ydl_opts_def path)
  have run: "main stub_lib (stub_services download_writes (recognizes ''hola''))
         \<lparr>youtube_url = ''https://www.youtube.com/watch?v=/abc'', language = ''es'',
          model_name = ''base'', clicked = True\<rparr> empty_world
       = (Inr (), \<lparr>fs = {''/abc.mp3'', ''audios''},
                   ui = page_head @ page_resolved ''/abc'' @ page_downloaded @
                        page_transcription ''/abc'' ''hola'',
                   calls = [Makedirs ''audios'',
                            Download (make_ydl_opts ''audios'' ''/abc.mp3'')
                              [''https://www.youtube.com/watch?v=/abc''],
                            Exists ''/abc.mp3'' True, Load_model ''base'',
                            Transcribe ''/abc.mp3'' ''es'']\<rparr>)"
    by (simp add: main_def id truthy_def download_audio_def stub_services_def
                  download_writes_def empty_world_def st_def called_def Let_def path
                  make_ydl_opts_def os_path_exists_def transcribe_audio_def transcribe_try_def
                  models_def recognizes_def transcription_error_marker_def)
  from id tmpl run show ?thesis by simp
qed


section \<open>The resolver\<close>

lemma py_split_nonempty: "py_split c s \<noteq> []"
  by (induction s) (auto split: list.splits)

lemma py_split_other:
  "x \<noteq> c \<Longrightarrow> py_split c (x # xs) = (x # hd (py_split c xs)) # tl (py_split c xs)"
  using py_split_nonempty [of c xs] by (auto split: list.splits)

lemma hd_py_split: "hd (py_split c s) = takeWhile (\<lambda>x. x \<noteq> c) s"
proof (induction s)
  case Nil
  show ?case by simp
next
  case (Cons x xs)
  with py_split_nonempty [of c xs] show ?case
    by (cases "py_split c xs") auto
qed

lemma embed_segment:
  "prefix ''/embed/'' p \<Longrightarrow>
   py_index (py_split CHR ''/'' p) 2 = Inr (takeWhile (\<lambda>x. x \<noteq> CHR ''/'') (drop 7 p))"
  using py_split_nonempty [of "CHR ''/''" "drop 7 p"] hd_py_split [of "CHR ''/''" "drop 7 p"]
  by (auto simp: prefix_def py_index_def neq_Nil_conv)

lemma v_segment:
  "prefix ''/v/'' p \<Longrightarrow>
   py_index (py_split CHR ''/'' p) 2 = Inr (takeWhile (\<lambda>x. x \<noteq> CHR ''/'') (drop 3 p))"
  using py_split_nonempty [of "CHR ''/''" "drop 3 p"] hd_py_split [of "CHR ''/''" "drop 3 p"]
  by (auto simp: prefix_def py_index_def neq_Nil_conv)

lemma collect_pairs_lookup:
  "collect_pairs ps m k =
     (case filter (\<lambda>(n, v). n = k) ps of
        [] \<Rightarrow> m k
      | kvs \<Rightarrow> Some ((case m k of None \<Rightarrow> [] | Some vs \<Rightarrow> vs) @ map snd kvs))"
  by (induction ps m rule: collect_pairs.induct) (auto split: list.splits option.splits)

lemma map_of_filter_hd:
  "map_of ps k = (case filter (\<lambda>(n, v). n = k) ps of [] \<Rightarrow> None | kv # _ \<Rightarrow> Some (snd kv))"
  by (induction ps) (auto split: list.splits)

lemma parse_qs_v:
  "py_index (case parse_qs lib q k of Some vs \<Rightarrow> map Some vs | None \<Rightarrow> [None]) 0
     = Inr (map_of (parse_qsl lib q) k)"
  by (auto simp: parse_qs_def collect_pairs_lookup map_of_filter_hd py_index_def
           split: list.splits option.splits)

lemma fallback_result:
  assumes "try_patterns regex_patterns url = None" and "urlparse lib url = Inr p"
  shows "extract_video_id lib url =
     Inr (if hostname p = Some ''www.youtube.com'' \<or> hostname p = Some ''youtube.com'' then
            if path p = ''/watch'' then map_of (parse_qsl lib (query p)) ''v''
            else if prefix ''/embed/'' (path p)
              then Some (takeWhile (\<lambda>x. x \<noteq> CHR ''/'') (drop 7 (path p)))
            else if prefix ''/v/'' (path p)
              then Some (takeWhile (\<lambda>x. x \<noteq> CHR ''/'') (drop 3 (path p)))
            else None
          else None)"
  using assms
  by (auto simp: extract_video_id_def parse_qs_v embed_segment v_segment Let_def)

lemma extract_video_id_raises_only_in_urlparse:
  "extract_video_id lib url = Inl e \<Longrightarrow> urlparse lib url = Inl e"
  by (auto simp: extract_video_id_def parse_qs_v embed_segment v_segment Let_def
           split: option.splits sum.splits if_splits)

lemma try_patterns_first_match:
  "i < length ps \<Longrightarrow> re_match (ps ! i) url = Some g \<Longrightarrow>
   \<forall>j<i. re_match (ps ! j) url = None \<Longrightarrow> try_patterns ps url = Some g"
proof (induction ps arbitrary: i)
  case Nil
  then show ?case by simp
next
  case (Cons p ps)
  show ?case
  proof (cases i)
    case 0
    with Cons.prems show ?thesis by simp
  next
    case (Suc k)
    with Cons.prems have "re_match p url = None" by auto
    moreover from Suc Cons.prems have "try_patterns ps url = Some g"
      by (intro Cons.IH [of k]) auto
    ultimately show ?thesis by simp
  qed
qed

lemma id_group_takes_ident:
  assumes "ident \<noteq> []" and "\<forall>c \<in> set ident. c \<notin> set ''?&/''"
    and "rest = [] \<or> hd rest \<in> set ''?&/''"
  shows "\<exists>more. rmatch id_group (ident @ rest, cap) = (rest, Some ident) # more"
proof -
  from assms(3) have "takeWhile (in_class (NoneOf ''?&/'')) rest = []"
    by (cases rest) auto
  with assms(2) have tw: "takeWhile (in_class (NoneOf ''?&/'')) (ident @ rest) = ident"
    by (simp add: takeWhile_append2)
  from assms(1) have "Suc 0 \<le> length ident"
    by (cases ident) simp_all
  then have "rev [1 ..< Suc (length ident)] = length ident # rev [1 ..< length ident]"
    by simp
  then show ?thesis
    by (simp add: id_group_def tw del: upt_Suc)
qed

lemma upt_split_at: "k \<le> n \<Longrightarrow> [0 ..< Suc n] = [0 ..< k] @ k # [Suc k ..< Suc n]"
proof -
  assume kn: "k \<le> n"
  then have "[0 ..< Suc n] = [0 ..< k] @ [k ..< Suc n]"
    using upt_add_eq_append [of 0 k "Suc n - k"] by simp
  also from kn have "[k ..< Suc n] = k # [Suc k ..< Suc n]"
    by (simp add: upt_conv_Cons del: upt_Suc)
  finally show ?thesis .
qed

lemma lazy_dot_skips_query:
  assumes q: "\<forall>c \<in> set q. c \<noteq> CHR ''&'' \<and> c \<noteq> CHR 0x0A"
    and "ident \<noteq> []" and "\<forall>c \<in> set ident. c \<notin> set ''?&/''"
    and "rest = [] \<or> hd rest \<in> set ''?&/''"
  shows "\<exists>more. rmatch (Cat (LazyStar Dot) (Cat (Lit ''&v='') id_group))
                   (q @ ''&v='' @ ident @ rest, cap) = (rest, Some ident) # more"
proof -
  define s where "s = q @ ''&v='' @ ident @ rest"
  define F where "F = (\<lambda>k. rmatch (Cat (Lit ''&v='') id_group) (drop k s, cap))"
  define n where "n = length (takeWhile (in_class Dot) s)"
  from id_group_takes_ident [OF assms(2-4)] obtain more
    where g: "rmatch id_group (ident @ rest, cap) = (rest, Some ident) # more" by blast
  from q have "takeWhile (in_class Dot) s = q @ takeWhile (in_class Dot) (''&v='' @ ident @ rest)"
    unfolding s_def by (simp add: takeWhile_append2)
  then have "length q \<le> n"
    by (simp add: n_def)
  then have split: "[0 ..< Suc n] = [0 ..< length q] @ length q # [Suc (length q) ..< Suc n]"
    by (rule upt_split_at)
  have skip: "F k = []" if "k < length q" for k
  proof -
    from that have "drop k s = q ! k # drop (Suc k) s"
      by (simp add: s_def Cons_nth_drop_Suc nth_append)
    moreover from that q have "q ! k \<noteq> CHR ''&''"
      by auto
    ultimately show ?thesis
      by (simp add: F_def)
  qed
  then have none: "concat (map F [0 ..< length q]) = []"
    by simp
  have hit: "F (length q) = (rest, Some ident) # more"
    by (simp add: F_def s_def g)
  have "rmatch (Cat (LazyStar Dot) (Cat (Lit ''&v='') id_group)) (s, cap)
          = concat (map F [0 ..< Suc n])"
    by (simp add: F_def n_def comp_def del: upt_Suc)
  also have "\<dots> = (rest, Some ident) # more @ concat (map F [Suc (length q) ..< Suc n])"
    unfolding split by (simp add: none hit del: upt_Suc)
  finally show ?thesis
    unfolding s_def by blast
qed

lemma general_shapes:
  assumes "sch \<in> {[], ''http://'', ''https://''}" and "www \<in> {[], ''www.''}"
    and i: "ident \<noteq> []" "\<forall>c \<in> set ident. c \<notin> set ''?&/''" "rest = [] \<or> hd rest \<in> set ''?&/''"
  shows "try_patterns regex_patterns (sch @ www @ ''youtu.be/'' @ ident @ rest) = Some (Some ident)"
    and "try_patterns regex_patterns (sch @ www @ ''youtube.com/embed/'' @ ident @ rest) = Some (Some ident)"
    and "try_patterns regex_patterns (sch @ www @ ''youtube.com/v/'' @ ident @ rest) = Some (Some ident)"
    and "try_patterns regex_patterns (sch @ www @ ''youtube.com/watch?v='' @ ident @ rest) = Some (Some ident)"
proof -
  from id_group_takes_ident [OF i] obtain more
    where g: "rmatch id_group (ident @ rest, None) = (rest, Some ident) # more" by blast
  from assms(1,2) show "try_patterns regex_patterns (sch @ www @ ''youtu.be/'' @ ident @ rest) = Some (Some ident)"
    by (elim insertE emptyE; simp add: regex_patterns_def url_prefix_def re_match_def g)
  from assms(1,2) show "try_patterns regex_patterns (sch @ www @ ''youtube.com/embed/'' @ ident @ rest) = Some (Some ident)"
    by (elim insertE emptyE; simp add: regex_patterns_def url_prefix_def re_match_def g)
  from assms(1,2) show "try_patterns regex_patterns (sch @ www @ ''youtube.com/v/'' @ ident @ rest) = Some (Some ident)"
    by (elim insertE emptyE; simp add: regex_patterns_def url_prefix_def re_match_def g)
  from assms(1,2) show "try_patterns regex_patterns (sch @ www @ ''youtube.com/watch?v='' @ ident @ rest) = Some (Some ident)"
    by (elim insertE emptyE; simp add: regex_patterns_def url_prefix_def re_match_def g)
qed


lemma no_v_prefix:
  "\<not> prefix ''v='' q \<Longrightarrow> \<forall>c \<in> set q. c \<noteq> CHR ''&'' \<Longrightarrow> \<not> prefix ''v='' (q @ ''&v='' @ t)"
  by (cases q; cases "tl q") auto

lemma later_v_shape:
  assumes "sch \<in> {[], ''http://'', ''https://''}" and "www \<in> {[], ''www.''}"
    and q: "\<forall>c \<in> set q. c \<noteq> CHR ''&'' \<and> c \<noteq> CHR 0x0A" "\<not> prefix ''v='' q"
    and i: "ident \<noteq> []" "\<forall>c \<in> set ident. c \<notin> set ''?&/''" "rest = [] \<or> hd rest \<in> set ''?&/''"
  shows "try_patterns regex_patterns (sch @ www @ ''youtube.com/watch?'' @ q @ ''&v='' @ ident @ rest)
           = Some (Some ident)"
proof -
  define T where "T = Cat (LazyStar Dot) (Cat (Lit ''&v='') id_group)"
  from lazy_dot_skips_query [OF q(1) i] obtain more
    where lz: "rmatch T (q @ ''&v='' @ ident @ rest, None) = (rest, Some ident) # more"
    unfolding T_def by blast
  from q have nv: "\<not> prefix ''v='' (q @ ''&v='' @ ident @ rest)"
    by (intro no_v_prefix) auto
  have pats: "regex_patterns =
     [ seq (url_prefix @ [Lit ''youtu.be/'', id_group]),
       seq (url_prefix @ [Lit ''youtube.com/embed/'', id_group]),
       seq (url_prefix @ [Lit ''youtube.com/v/'', id_group]),
       seq (url_prefix @ [Lit ''youtube.com/watch?v='', id_group]),
       seq (url_prefix @ [Lit ''youtube.com/watch?'', T]) ]"
    by (simp add: regex_patterns_def T_def url_prefix_def)
  from assms(1,2) nv lz show ?thesis
    unfolding pats
    by (elim insertE emptyE; simp add: url_prefix_def re_match_def)
qed

text \<open>
  Claim C3. Each of the five example URLs resolves to \<open>abc123\<close>. More generally, take
  an optional \<open>http://\<close> or \<open>https://\<close>, an optional \<open>www.\<close>, an identifier that is not
  empty and holds none of \<open>?\<close>, \<open>&\<close>, \<open>/\<close>, and a rest that is empty or starts with one
  of these three: the short link, the embed path, the \<open>/v/\<close> path and the watch URL whose
  query starts with \<open>v=\<close> resolve to the identifier, and so does the watch URL whose
  query has, before \<open>&v=\<close>, a part without \<open>&\<close> and newline that does not start with
  \<open>v=\<close>. The patterns are tried in the order of the list: when pattern \<open>i\<close> matches with
  group \<open>g\<close> and no earlier pattern matches, \<open>extract_video_id\<close> returns \<open>g\<close>, whatever the
  later patterns and the URL parser would give.
\<close>

theorem recognized_shapes_resolve_in_order:
  "extract_video_id lib ''https://youtu.be/abc123'' = Inr (Some ''abc123'')
   \<and> extract_video_id lib ''https://www.youtube.com/watch?v=abc123'' = Inr (Some ''abc123'')
   \<and> extract_video_id lib ''https://www.youtube.com/watch?foo=1&v=abc123'' = Inr (Some ''abc123'')
   \<and> extract_video_id lib ''https://www.youtube.com/embed/abc123'' = Inr (Some ''abc123'')
   \<and> extract_video_id lib ''https://www.youtube.com/v/abc123'' = Inr (Some ''abc123'')
   \<and> (\<forall>sch www ident rest.
         sch \<in> {[], ''http://'', ''https://''} \<and> www \<in> {[], ''www.''} \<and>
         ident \<noteq> [] \<and> (\<forall>c \<in> set ident. c \<notin> set ''?&/'') \<and>
         (rest = [] \<or> hd rest \<in> set ''?&/'')
         \<longrightarrow>
           extract_video_id lib (sch @ www @ ''youtu.be/'' @ ident @ rest) = Inr (Some ident)
         \<and> extract_video_id lib (sch @ www @ ''youtube.com/embed/'' @ ident @ rest)
             = Inr (Some ident)
         \<and> extract_video_id lib (sch @ www @ ''youtube.com/v/'' @ ident @ rest)
             = Inr (Some ident)
         \<and> extract_video_id lib (sch @ www @ ''youtube.com/watch?v='' @ ident @ rest)
             = Inr (Some ident)
         \<and> (\<forall>q. (\<forall>c \<in> set q. c \<noteq> CHR ''&'' \<and> c \<noteq> CHR 0x0A) \<and> \<not> prefix ''v='' q
               \<longrightarrow> extract_video_id lib
                     (sch @ www @ ''youtube.com/watch?'' @ q @ ''&v='' @ ident @ rest)
                   = Inr (Some ident)))
   \<and> (\<forall>i g. i < length regex_patterns \<and> re_match (regex_patterns ! i) url = Some g \<and>
              (\<forall>j<i. re_match (regex_patterns ! j) url = None)
              \<longrightarrow> extract_video_id lib url = Inr g)"
proof (intro conjI allI impI; (elim conjE)?)
  have found: "extract_video_id lib u = Inr g" if "try_patterns regex_patterns u = Some g" for u g
    using that by (simp add: extract_video_id_def)
  show "extract_video_id lib ''https://youtu.be/abc123'' = Inr (Some ''abc123'')"
    by code_simp
  show "extract_video_id lib ''https://www.youtube.com/watch?v=abc123'' = Inr (Some ''abc123'')"
    by code_simp
  show "extract_video_id lib ''https://www.youtube.com/watch?foo=1&v=abc123''
          = Inr (Some ''abc123'')"
    by code_simp
  show "extract_video_id lib ''https://www.youtube.com/embed/abc123'' = Inr (Some ''abc123'')"
    by code_simp
  show "extract_video_id lib ''https://www.youtube.com/v/abc123'' = Inr (Some ''abc123'')"
    by code_simp
  {
    fix sch www ident rest :: string
    assume s: "sch \<in> {[], ''http://'', ''https://''}" and w: "www \<in> {[], ''www.''}"
      and i: "ident \<noteq> []" "\<forall>c \<in> set ident. c \<notin> set ''?&/''"
             "rest = [] \<or> hd rest \<in> set ''?&/''"
    note g = general_shapes [OF s w i]
    from g(1) show "extract_video_id lib (sch @ www @ ''youtu.be/'' @ ident @ rest)
                      = Inr (Some ident)"
      by (rule found)
    from g(2) show "extract_video_id lib (sch @ www @ ''youtube.com/embed/'' @ ident @ rest)
                      = Inr (Some ident)"
      by (rule found)
    from g(3) show "extract_video_id lib (sch @ www @ ''youtube.com/v/'' @ ident @ rest)
                      = Inr (Some ident)"
      by (rule found)
    from g(4) show "extract_video_id lib (sch @ www @ ''youtube.com/watch?v='' @ ident @ rest)
                      = Inr (Some ident)"
      by (rule found)
    fix q :: string
    assume q: "\<forall>c \<in> set q. c \<noteq> CHR ''&'' \<and> c \<noteq> CHR 0x0A" "\<not> prefix ''v='' q"
    from later_v_shape [OF s w q i]
    show "extract_video_id lib (sch @ www @ ''youtube.com/watch?'' @ q @ ''&v='' @ ident @ rest)
            = Inr (Some ident)"
      by (rule found)
  }
  fix i g
  assume "i < length regex_patterns" and "re_match (regex_patterns ! i) url = Some g"
    and "\<forall>j<i. re_match (regex_patterns ! j) url = None"
  then have "try_patterns regex_patterns url = Some g"
    by (rule try_patterns_first_match)
  then show "extract_video_id lib url = Inr g"
    by (rule found)
qed


theorem recognized_shapes_resolve_in_order_witness:
  "map (\<lambda>pattern. re_match pattern ''https://www.youtube.com/watch?v=a&v=b'') regex_patterns
     = [None, None, None, Some (Some ''a''), Some (Some ''b'')]
   \<and> extract_video_id stub_lib ''https://www.youtube.com/watch?v=a&v=b'' = Inr (Some ''a'')
   \<and> extract_video_id stub_lib ''http://youtu.be/dQw4w9WgXcQ?t=42'' = Inr (Some ''dQw4w9WgXcQ'')
   \<and> extract_video_id stub_lib ''http://youtube.com/watch?feature=share&v=dQw4w9WgXcQ&t=42''
       = Inr (Some ''dQw4w9WgXcQ'')"
proof -
  let ?u = "''https://www.youtube.com/watch?v=a&v=b''"
  have m: "map (\<lambda>pattern. re_match pattern ?u) regex_patterns
             = [None, None, None, Some (Some ''a''), Some (Some ''b'')]"
    by code_simp
  have len: "length regex_patterns = 5"
    by (simp add: regex_patterns_def)
  from m have nth: "re_match (regex_patterns ! 0) ?u = None"
    "re_match (regex_patterns ! 1) ?u = None" "re_match (regex_patterns ! 2) ?u = None"
    "re_match (regex_patterns ! 3) ?u = Some (Some ''a'')"
    by (simp_all add: regex_patterns_def)
  have before: "\<forall>j<3. re_match (regex_patterns ! j) ?u = None"
  proof (intro allI impI)
    fix j :: nat
    assume "j < 3"
    then have "j = 0 \<or> j = 1 \<or> j = 2" by arith
    with nth show "re_match (regex_patterns ! j) ?u = None" by auto
  qed
  note inst = recognized_shapes_resolve_in_order [of stub_lib ?u]
  note order = inst [THEN conjunct2, THEN conjunct2, THEN conjunct2, THEN conjunct2,
                     THEN conjunct2, THEN conjunct2, rule_format, of 3 "Some ''a''"]
  note shapes = inst [THEN conjunct2, THEN conjunct2, THEN conjunct2, THEN conjunct2,
                      THEN conjunct2, THEN conjunct1, THEN spec, THEN spec, THEN spec, THEN spec,
                      of "''http://''" "[]" "''dQw4w9WgXcQ''" _]
  from order len nth before have a: "extract_video_id stub_lib ?u = Inr (Some ''a'')"
    by simp
  from shapes [of "''?t=42''"]
  have b: "extract_video_id stub_lib ''http://youtu.be/dQw4w9WgXcQ?t=42''
             = Inr (Some ''dQw4w9WgXcQ'')"
    by simp
  from shapes [of "''&t=42''"]
  have "\<forall>q. (\<forall>c \<in> set q. c \<noteq> CHR ''&'' \<and> c \<noteq> CHR 0x0A) \<and> \<not> prefix ''v='' q
          \<longrightarrow> extract_video_id stub_lib
                (''http://'' @ [] @ ''youtube.com/watch?'' @ q @ ''&v='' @ ''dQw4w9WgXcQ'' @ ''&t=42'')
              = Inr (Some ''dQw4w9WgXcQ'')"
    by simp
  from this [THEN spec, of "''feature=share''"]
  have c: "extract_video_id stub_lib
             ''http://youtube.com/watch?feature=share&v=dQw4w9WgXcQ&t=42''
             = Inr (Some ''dQw4w9WgXcQ'')"
    by simp
  from m a b c show ?thesis by simp
qed

text \<open>
  Claim C2. \<open>extract_video_id\<close> returns \<open>None\<close> on \<open>https://example.com/\<close>, but it does raise
  on some malformed input: no pattern matches \<open>http://[\<close>, and \<open>urlparse\<close> raises
  \<open>ValueError\<close> on a network location with an unbalanced bracket. Nothing in
  \<open>extract_video_id\<close> catches it.
\<close>

theorem unbalanced_bracket_raises_value_error:
  "extract_video_id lib ''http://['' = Inl (Exn ''ValueError'' ''Invalid IPv6 URL'')
   \<and> extract_video_id lib ''https://example.com/'' = Inr None"
proof -
  have a: "extract_video_id lib ''http://['' = Inl (Exn ''ValueError'' ''Invalid IPv6 URL'')"
    by code_simp
  have b: "extract_video_id lib ''https://example.com/'' = Inr None"
    by code_simp
  from a b show ?thesis by simp
qed

text \<open>
  Claim C6. The fallback does what the claim says on every URL that \<open>urlparse\<close> accepts
  (lemma \<open>fallback_result\<close>), but not on every URL that no pattern matches: \<open>urlparse\<close>
  raises \<open>ValueError\<close> on a network location with an unbalanced bracket, and the
  fallback passes the exception on where the claim says \<open>None\<close>. On
  \<open>http://[evil.example/watch?v=abc\<close> and on \<open>https://www.youtube.com]/watch?v=abc\<close> no
  pattern matches and \<open>extract_video_id\<close> raises.
\<close>

theorem fallback_raises_on_unbalanced_bracket:
  "try_patterns regex_patterns ''http://[evil.example/watch?v=abc'' = None
   \<and> extract_video_id lib ''http://[evil.example/watch?v=abc''
       = Inl (Exn ''ValueError'' ''Invalid IPv6 URL'')
   \<and> try_patterns regex_patterns ''https://www.youtube.com]/watch?v=abc'' = None
   \<and> extract_video_id lib ''https://www.youtube.com]/watch?v=abc''
       = Inl (Exn ''ValueError'' ''Invalid IPv6 URL'')"
proof -
  have a: "try_patterns regex_patterns ''http://[evil.example/watch?v=abc'' = None"
    by code_simp
  have b: "extract_video_id lib ''http://[evil.example/watch?v=abc''
             = Inl (Exn ''ValueError'' ''Invalid IPv6 URL'')"
    by code_simp
  have c: "try_patterns regex_patterns ''https://www.youtube.com]/watch?v=abc'' = None"
    by code_simp
  have d: "extract_video_id lib ''https://www.youtube.com]/watch?v=abc''
             = Inl (Exn ''ValueError'' ''Invalid IPv6 URL'')"
    by code_simp
  from a b c d show ?thesis by simp
qed

end
